theory Spec2Isabelle
  imports Complex_Main "HOL-Library.AList"
begin

section \<open>JavaScript and BSON values\<close>

text \<open>
  The service of \<^verbatim>\<open>index.js\<close> is dynamically typed: a request body is whatever JSON the
  caller sent, and a stored crop is whatever document was inserted. Values are therefore
  modelled untyped. \<open>JNum\<close> holds the (finite) value of a double as a rational;
  \<open>JObjectId\<close> holds the 24 lower-case hexadecimal digits of a MongoDB ObjectId and
  \<open>JDate\<close> the milliseconds of a \<^verbatim>\<open>Date\<close>. An object is the list of its own properties,
  each key once.
\<close>

datatype jsval =
    JUndefined
  | JNull
  | JBool bool
  | JNum rat
  | JStr string
  | JObjectId string
  | JDate nat
  | JArr "jsval list"
  | JObj "(string \<times> jsval) list"

type_synonym doc = "(string \<times> jsval) list"

text \<open>
  The collection \<^verbatim>\<open>cropsCollection\<close>: its documents in natural order. The handle is
  taken as connected (\<^verbatim>\<open>run()\<close> has assigned it) when a request arrives.
\<close>

type_synonym store = "doc list"

datatype js_error = TypeError | BSONError | MongoServerError

text \<open>Truthiness, as \<^verbatim>\<open>!x\<close> and \<^verbatim>\<open>if (x)\<close> read it.\<close>

fun truthy :: "jsval \<Rightarrow> bool" where
  "truthy JUndefined = False"
| "truthy JNull = False"
| "truthy (JBool b) = b"
| "truthy (JNum n) = (n \<noteq> 0)"
| "truthy (JStr s) = (s \<noteq> [])"
| "truthy _ = True"

fun is_nullish :: "jsval \<Rightarrow> bool" where
  "is_nullish JUndefined = True"
| "is_nullish JNull = True"
| "is_nullish _ = False"

fun is_primitive :: "jsval \<Rightarrow> bool" where
  "is_primitive (JObjectId _) = False"
| "is_primitive (JDate _) = False"
| "is_primitive (JArr _) = False"
| "is_primitive (JObj _) = False"
| "is_primitive _ = True"

text \<open>
  \<^verbatim>\<open>a === b\<close> where \<open>a\<close> was read from the store and \<open>b\<close> from the request: primitives
  are compared by value, objects (arrays, ObjectIds and dates included) by reference, and
  two values of different origin are never the same object.
\<close>

definition strict_eq :: "jsval \<Rightarrow> jsval \<Rightarrow> bool" where
  "strict_eq a b = (is_primitive a \<and> a = b)"

text \<open>
  Property access \<^verbatim>\<open>v.k\<close> for the property names the source reads (none of them is a
  built-in property of a string, a number, an array, an ObjectId or a date): a
  \<^verbatim>\<open>TypeError\<close> on \<^verbatim>\<open>undefined\<close> and \<^verbatim>\<open>null\<close>, the own property of an object, and
  \<^verbatim>\<open>undefined\<close> otherwise.
\<close>

fun js_prop :: "jsval \<Rightarrow> string \<Rightarrow> jsval" where
  "js_prop (JObj fs) k = (case map_of fs k of Some v \<Rightarrow> v | None \<Rightarrow> JUndefined)"
| "js_prop _ k = JUndefined"

definition get_prop :: "jsval \<Rightarrow> string \<Rightarrow> js_error + jsval" where
  "get_prop v k = (if is_nullish v then Inl TypeError else Inr (js_prop v k))"

text \<open>Optional chaining \<^verbatim>\<open>v?.k\<close>.\<close>

definition opt_prop :: "jsval \<Rightarrow> string \<Rightarrow> jsval" where
  "opt_prop v k = (if is_nullish v then JUndefined else js_prop v k)"

text \<open>
  What the source leaves to the JavaScript runtime and to the MongoDB server, and what
  this development does not fix, is a parameter of the model; every theorem holds for
  all values of it.
  \<^item> \<open>less_than_one v\<close> is \<^verbatim>\<open>v < 1\<close> for a string, an array or an object \<open>v\<close> (the
    conversion of a string to a double, or a \<^verbatim>\<open>TypeError\<close> from \<^verbatim>\<open>ToPrimitive\<close>);
  \<^item> \<open>filter_other q d\<close> says whether document \<open>d\<close> matches the filter
    \<^verbatim>\<open>{"interests.userEmail": q}\<close> for a \<open>q\<close> that is not a string (an array or an object
    of the query-string parser, which the server may read as query operators);
  \<^item> \<open>set_other oid fs s\<close> is the result of
    \<^verbatim>\<open>updateOne({ _id: oid }, { $set: fs })\<close> on the collection \<open>s\<close> when some key of \<open>fs\<close>
    is not a plain field name (it is empty, dotted, or starts with \<^verbatim>\<open>$\<close>): the server
    reads such a key as a path.
\<close>

record platform =
  less_than_one :: "jsval \<Rightarrow> js_error + bool"
  filter_other :: "jsval \<Rightarrow> doc \<Rightarrow> bool"
  set_other :: "string \<Rightarrow> doc \<Rightarrow> store \<Rightarrow> js_error + (store \<times> nat \<times> nat)"

text \<open>\<^verbatim>\<open>quantity < 1\<close>: both sides are converted to numbers; a comparison with \<^verbatim>\<open>NaN\<close> is false.\<close>

definition quantity_lt_1 :: "platform \<Rightarrow> jsval \<Rightarrow> js_error + bool" where
  "quantity_lt_1 pf q =
     (case q of
        JUndefined \<Rightarrow> Inr False
      | JNull \<Rightarrow> Inr True
      | JBool b \<Rightarrow> Inr ((if b then 1 else 0) < (1::rat))
      | JNum n \<Rightarrow> Inr (n < 1)
      | _ \<Rightarrow> less_than_one pf q)"

subsection \<open>ObjectIds\<close>

text \<open>
  \<^verbatim>\<open>new ObjectId(s)\<close> for a string \<open>s\<close> of a route: 24 hexadecimal digits give the id (upper
  and lower case denote the same bytes), anything else throws. \<^verbatim>\<open>ObjectId.isValid(s)\<close>
  says whether the constructor would succeed. (Drivers before version 6 of \<^verbatim>\<open>bson\<close> also
  took any string of 12 bytes; the strings used below have neither length.)
\<close>

definition is_hex_digit :: "char \<Rightarrow> bool" where
  "is_hex_digit c = (c \<in> set ''0123456789abcdefABCDEF'')"

definition lower_hex :: "char \<Rightarrow> char" where
  "lower_hex c =
     (case map_of (zip ''ABCDEF'' ''abcdef'') c of Some l \<Rightarrow> l | None \<Rightarrow> c)"

definition ObjectId_isValid :: "string \<Rightarrow> bool" where
  "ObjectId_isValid s = (length s = 24 \<and> list_all is_hex_digit s)"

definition new_ObjectId :: "string \<Rightarrow> string option" where
  "new_ObjectId s = (if ObjectId_isValid s then Some (map lower_hex s) else None)"

section \<open>The document store\<close>

text \<open>A document as the driver returns it is a JavaScript object: \<^verbatim>\<open>crop.k\<close>.\<close>

definition doc_prop :: "doc \<Rightarrow> string \<Rightarrow> jsval" where
  "doc_prop d k = js_prop (JObj d) k"

text \<open>The filter \<^verbatim>\<open>{ _id: new ObjectId(id) }\<close>.\<close>

definition id_matches :: "string \<Rightarrow> doc \<Rightarrow> bool" where
  "id_matches oid d = (map_of d ''_id'' = Some (JObjectId oid))"

definition findOne :: "store \<Rightarrow> (doc \<Rightarrow> bool) \<Rightarrow> doc option" where
  "findOne s q = find q s"

text \<open>
  \<^verbatim>\<open>updateOne(filter, update)\<close>: the update is applied to the first document that
  matches, other documents are untouched, and no match is no error. The result carries
  \<^verbatim>\<open>matchedCount\<close> and \<^verbatim>\<open>modifiedCount\<close>. An update the server rejects changes nothing.
\<close>

fun updateOne ::
  "(doc \<Rightarrow> bool) \<Rightarrow> (doc \<Rightarrow> js_error + doc) \<Rightarrow> store \<Rightarrow> js_error + (store \<times> nat \<times> nat)" where
  "updateOne q u [] = Inr ([], 0, 0)"
| "updateOne q u (d # ds) =
     (if q d then
        (case u d of
           Inl e \<Rightarrow> Inl e
         | Inr d' \<Rightarrow> Inr (d' # ds, 1, if d' = d then 0 else 1))
      else
        (case updateOne q u ds of
           Inl e \<Rightarrow> Inl e
         | Inr (ds', m, n) \<Rightarrow> Inr (d # ds', m, n)))"

text \<open>
  The driver writes \<^verbatim>\<open>undefined\<close> as \<^verbatim>\<open>null\<close> (\<^verbatim>\<open>ignoreUndefined\<close> is off by default). Only
  a property destructured from the body can be \<^verbatim>\<open>undefined\<close>; JSON has no such value inside.
\<close>

definition bson_value :: "jsval \<Rightarrow> jsval" where
  "bson_value v = (if v = JUndefined then JNull else v)"

definition to_bson :: "doc \<Rightarrow> doc" where
  "to_bson fs = map (\<lambda>(k, v). (k, bson_value v)) fs"

text \<open>
  \<^verbatim>\<open>{ $push: { interests: v } }\<close>: appends to the array, creates it when the field is
  absent, and is rejected by the server when the field holds anything but an array.
\<close>

definition push_interests :: "jsval \<Rightarrow> doc \<Rightarrow> js_error + doc" where
  "push_interests v d =
     (case map_of d ''interests'' of
        None \<Rightarrow> Inr (AList.update ''interests'' (JArr [v]) d)
      | Some (JArr es) \<Rightarrow> Inr (AList.update ''interests'' (JArr (es @ [v])) d)
      | Some _ \<Rightarrow> Inl MongoServerError)"

section \<open>Responses\<close>

text \<open>
  The bodies \<^verbatim>\<open>{ error: "..." }\<close> of the source, by handler:
  \<open>UserInfoRequired\<close> "User info required", \<open>QuantityAtLeast1\<close> "Quantity must be at least 1",
  \<open>CropNotFound\<close> "Crop not found", \<open>OwnerCannotSendInterest\<close> "Owner cannot send interest",
  \<open>AlreadySentInterest\<close> "You've already sent an interest",
  \<open>FailedToSubmitInterest\<close> "Failed to submit interest", \<open>InvalidIds\<close> "Invalid ID(s)",
  \<open>FailedToUpdateInterestStatus\<close> "Failed to update interest status",
  \<open>InvalidCropId\<close> "Invalid crop ID", \<open>FailedToFetchCrop\<close> "Failed to fetch crop",
  \<open>FailedToUpdateCrop\<close> "Failed to update crop", \<open>EmailIsRequired\<close> "Email is required",
  \<open>FailedToFetchInterests\<close> "Failed to fetch interests".
\<close>

datatype err_msg =
    UserInfoRequired
  | QuantityAtLeast1
  | CropNotFound
  | OwnerCannotSendInterest
  | AlreadySentInterest
  | FailedToSubmitInterest
  | InvalidIds
  | FailedToUpdateInterestStatus
  | InvalidCropId
  | FailedToFetchCrop
  | FailedToUpdateCrop
  | EmailIsRequired
  | FailedToFetchInterests

text \<open>
  \<open>Send v\<close> is \<^verbatim>\<open>res.send(v)\<close> (status 200), \<open>SendStatus c m\<close> is
  \<^verbatim>\<open>res.status(c).send({ error: m })\<close>, and \<open>Unhandled e\<close> is an exception that leaves the
  handler: no \<^verbatim>\<open>try\<close> encloses the statement, and the handler sends nothing.
\<close>

datatype response =
    Send jsval
  | SendStatus nat err_msg
  | Unhandled js_error

section \<open>POST /api/crops/:id/interests\<close>

text \<open>\<^verbatim>\<open>crop.interests?.find(i => i.userEmail === userEmail)\<close>, the callback first.\<close>

fun find_interest :: "jsval \<Rightarrow> jsval list \<Rightarrow> js_error + jsval" where
  "find_interest userEmail [] = Inr JUndefined"
| "find_interest userEmail (i # rest) =
     (case get_prop i ''userEmail'' of
        Inl e \<Rightarrow> Inl e
      | Inr v \<Rightarrow> if strict_eq v userEmail then Inr i else find_interest userEmail rest)"

definition existingInterest :: "doc \<Rightarrow> jsval \<Rightarrow> js_error + jsval" where
  "existingInterest crop userEmail =
     (case doc_prop crop ''interests'' of
        JUndefined \<Rightarrow> Inr JUndefined
      | JNull \<Rightarrow> Inr JUndefined
      | JArr es \<Rightarrow> find_interest userEmail es
      | _ \<Rightarrow> Inl TypeError)"

definition newInterest ::
  "string \<Rightarrow> string \<Rightarrow> jsval \<Rightarrow> jsval \<Rightarrow> jsval \<Rightarrow> jsval \<Rightarrow> nat \<Rightarrow> doc" where
  "newInterest interestId cropId userEmail userName quantity message now =
     [(''_id'', JObjectId interestId),
      (''cropId'', JStr cropId),
      (''userEmail'', userEmail),
      (''userName'', userName),
      (''quantity'', quantity),
      (''message'', message),
      (''status'', JStr ''pending''),
      (''createdAt'', JDate now)]"

text \<open>
  The handler awaits the store twice: \<^verbatim>\<open>findOne\<close> (line 100) and \<^verbatim>\<open>updateOne\<close> (line 125).
  \<open>submit_read\<close> is the handler up to the second await, on the store as \<^verbatim>\<open>findOne\<close> saw it:
  it ends with a response, or with the write it is about to issue. \<open>submit_write\<close> is the
  rest. Every exception inside the \<^verbatim>\<open>try\<close> becomes the 500 of the \<^verbatim>\<open>catch\<close>.
  \<open>interestId\<close> and \<open>now\<close> are the values of \<^verbatim>\<open>new ObjectId()\<close> and \<^verbatim>\<open>new Date()\<close>.
\<close>

definition submit_read ::
  "platform \<Rightarrow> store \<Rightarrow> string \<Rightarrow> jsval \<Rightarrow> string \<Rightarrow> nat \<Rightarrow> response + (string \<times> doc)" where
  "submit_read pf s cropId body interestId now =
     (if is_nullish body then Inl (SendStatus 500 FailedToSubmitInterest)
      else
        let userEmail = js_prop body ''userEmail'';
            userName = js_prop body ''userName'';
            quantity = js_prop body ''quantity'';
            message = js_prop body ''message''
        in
          if \<not> truthy userEmail \<or> \<not> truthy userName then Inl (SendStatus 400 UserInfoRequired)
          else if \<not> truthy quantity then Inl (SendStatus 400 QuantityAtLeast1)
          else
            (case quantity_lt_1 pf quantity of
               Inl e \<Rightarrow> Inl (SendStatus 500 FailedToSubmitInterest)
             | Inr True \<Rightarrow> Inl (SendStatus 400 QuantityAtLeast1)
             | Inr False \<Rightarrow>
                 (case new_ObjectId cropId of
                    None \<Rightarrow> Inl (SendStatus 500 FailedToSubmitInterest)
                  | Some oid \<Rightarrow>
                      (case findOne s (id_matches oid) of
                         None \<Rightarrow> Inl (SendStatus 404 CropNotFound)
                       | Some crop \<Rightarrow>
                           if strict_eq (opt_prop (doc_prop crop ''owner'') ''ownerEmail'') userEmail
                           then Inl (SendStatus 403 OwnerCannotSendInterest)
                           else
                             (case existingInterest crop userEmail of
                                Inl e \<Rightarrow> Inl (SendStatus 500 FailedToSubmitInterest)
                              | Inr found \<Rightarrow>
                                  if truthy found then Inl (SendStatus 400 AlreadySentInterest)
                                  else Inr (oid,
                                    newInterest interestId cropId userEmail userName
                                      quantity message now))))))"

definition submit_write :: "store \<Rightarrow> string \<times> doc \<Rightarrow> store \<times> response" where
  "submit_write s w =
     (case updateOne (id_matches (fst w)) (push_interests (JObj (to_bson (snd w)))) s of
        Inl e \<Rightarrow> (s, SendStatus 500 FailedToSubmitInterest)
      | Inr (s', m, n) \<Rightarrow> (s', Send (JObj (snd w))))"

text \<open>One request served with no other request in between.\<close>

definition submitInterest ::
  "platform \<Rightarrow> store \<Rightarrow> string \<Rightarrow> jsval \<Rightarrow> string \<Rightarrow> nat \<Rightarrow> store \<times> response" where
  "submitInterest pf s cropId body interestId now =
     (case submit_read pf s cropId body interestId now of
        Inl r \<Rightarrow> (s, r)
      | Inr w \<Rightarrow> submit_write s w)"

section \<open>PATCH /api/crops/:cropId/interests/:interestId\<close>

text \<open>
  An equality condition of a filter holds for a field whose value is the operand, or an
  array with the operand among its elements.
\<close>

definition field_equals :: "jsval \<Rightarrow> jsval \<Rightarrow> bool" where
  "field_equals v q = (v = q \<or> (case v of JArr ws \<Rightarrow> q \<in> set ws | _ \<Rightarrow> False))"

definition elem_has :: "string \<Rightarrow> jsval \<Rightarrow> jsval \<Rightarrow> bool" where
  "elem_has k q e =
     (case e of
        JObj fs \<Rightarrow> (case map_of fs k of Some v \<Rightarrow> field_equals v q | None \<Rightarrow> False)
      | _ \<Rightarrow> False)"

text \<open>
  The condition \<^verbatim>\<open>"interests.k": q\<close>: the path goes into the embedded documents of the
  array \<^verbatim>\<open>interests\<close>, or into \<^verbatim>\<open>interests\<close> itself when it is an embedded document.
\<close>

definition interests_path_matches :: "string \<Rightarrow> jsval \<Rightarrow> doc \<Rightarrow> bool" where
  "interests_path_matches k q d =
     (case map_of d ''interests'' of
        Some (JArr es) \<Rightarrow> list_ex (elem_has k q) es
      | Some (JObj fs) \<Rightarrow> elem_has k q (JObj fs)
      | _ \<Rightarrow> False)"

text \<open>
  \<^verbatim>\<open>{ $set: { "interests.$.status": v } }\<close>: the positional operator stands for the first
  element of the array that satisfies the filter's condition on it; the server rejects
  the update when the filter matched without an array.
\<close>

fun set_first :: "(jsval \<Rightarrow> bool) \<Rightarrow> (jsval \<Rightarrow> jsval) \<Rightarrow> jsval list \<Rightarrow> jsval list" where
  "set_first p f [] = []"
| "set_first p f (e # es) = (if p e then f e # es else e # set_first p f es)"

fun set_field :: "string \<Rightarrow> jsval \<Rightarrow> jsval \<Rightarrow> jsval" where
  "set_field k v (JObj fs) = JObj (AList.update k v fs)"
| "set_field k v e = e"

definition set_interest_status :: "jsval \<Rightarrow> jsval \<Rightarrow> doc \<Rightarrow> js_error + doc" where
  "set_interest_status q v d =
     (case map_of d ''interests'' of
        Some (JArr es) \<Rightarrow>
          Inr (AList.update ''interests''
                 (JArr (set_first (elem_has ''_id'' q) (set_field ''status'' v) es)) d)
      | _ \<Rightarrow> Inl MongoServerError)"

text \<open>
  The handler. \<^verbatim>\<open>const { status } = req.body\<close> stands before the \<^verbatim>\<open>try\<close>. The result of
  \<^verbatim>\<open>updateOne\<close> is not read.
\<close>

definition updateInterestStatus :: "store \<Rightarrow> string \<Rightarrow> string \<Rightarrow> jsval \<Rightarrow> store \<times> response" where
  "updateInterestStatus s cropId interestId body =
     (case get_prop body ''status'' of
        Inl e \<Rightarrow> (s, Unhandled e)
      | Inr status \<Rightarrow>
          if \<not> ObjectId_isValid cropId \<or> \<not> ObjectId_isValid interestId
          then (s, SendStatus 400 InvalidIds)
          else
            (case (new_ObjectId cropId, new_ObjectId interestId) of
               (Some c, Some i) \<Rightarrow>
                 (case updateOne
                         (\<lambda>d. id_matches c d \<and> interests_path_matches ''_id'' (JObjectId i) d)
                         (set_interest_status (JObjectId i) (bson_value status)) s of
                    Inl e \<Rightarrow> (s, SendStatus 500 FailedToUpdateInterestStatus)
                  | Inr (s', m, n) \<Rightarrow> (s', Send (JObj [(''success'', JBool True)])))
             | _ \<Rightarrow> (s, SendStatus 500 FailedToUpdateInterestStatus)))"

section \<open>GET /api/crops/:id\<close>

text \<open>The route parameter \<^verbatim>\<open>id\<close> is written \<open>crop_id\<close>.\<close>

definition getCrop :: "store \<Rightarrow> string \<Rightarrow> response" where
  "getCrop s crop_id =
     (if \<not> ObjectId_isValid crop_id then SendStatus 400 InvalidCropId
      else
        (case new_ObjectId crop_id of
           None \<Rightarrow> SendStatus 500 FailedToFetchCrop
         | Some oid \<Rightarrow>
             (case findOne s (id_matches oid) of
                None \<Rightarrow> SendStatus 404 CropNotFound
              | Some crop \<Rightarrow> Send (JObj crop))))"

section \<open>PUT and PATCH /api/crops/:id\<close>

text \<open>
  \<^verbatim>\<open>{ $set: req.body }\<close>. The operand must be a document. A plain field name is set at the
  top level of the crop: an existing field gets the new value, a new field is added, and
  every other field stays. The server refuses a new value for \<^verbatim>\<open>_id\<close>. An empty
  document is allowed and changes nothing (servers from version 5.0, which the Stable API
  that the client asks for requires).
\<close>

definition plain_key :: "string \<Rightarrow> bool" where
  "plain_key k = (k \<noteq> [] \<and> CHR ''.'' \<notin> set k \<and> CHR 0x00 \<notin> set k \<and> hd k \<noteq> CHR ''$'')"

fun apply_set :: "doc \<Rightarrow> doc \<Rightarrow> js_error + doc" where
  "apply_set [] d = Inr d"
| "apply_set ((k, v) # fs) d =
     (if k = ''_id'' then
        (if map_of d ''_id'' = Some v then apply_set fs d else Inl MongoServerError)
      else apply_set fs (AList.update k v d))"

definition update_set :: "platform \<Rightarrow> string \<Rightarrow> jsval \<Rightarrow> store \<Rightarrow> js_error + (store \<times> nat \<times> nat)" where
  "update_set pf oid body s =
     (case body of
        JObj fs \<Rightarrow>
          if list_all (\<lambda>(k, v). plain_key k) fs
          then updateOne (id_matches oid) (apply_set fs) s
          else set_other pf oid fs s
      | _ \<Rightarrow> Inl MongoServerError)"

text \<open>PUT: no statement of the handler is inside a \<^verbatim>\<open>try\<close>.\<close>

definition putCrop :: "platform \<Rightarrow> store \<Rightarrow> string \<Rightarrow> jsval \<Rightarrow> store \<times> response" where
  "putCrop pf s crop_id body =
     (case new_ObjectId crop_id of
        None \<Rightarrow> (s, Unhandled BSONError)
      | Some oid \<Rightarrow>
          (case update_set pf oid body s of
             Inl e \<Rightarrow> (s, Unhandled e)
           | Inr (s', m, n) \<Rightarrow> (s', Send (JObj [(''success'', JBool True)]))))"

text \<open>PATCH sends the driver's \<^verbatim>\<open>UpdateResult\<close>.\<close>

definition UpdateResult :: "nat \<Rightarrow> nat \<Rightarrow> jsval" where
  "UpdateResult m n =
     JObj [(''acknowledged'', JBool True),
           (''modifiedCount'', JNum (of_nat n)),
           (''upsertedId'', JNull),
           (''upsertedCount'', JNum 0),
           (''matchedCount'', JNum (of_nat m))]"

definition patchCrop :: "platform \<Rightarrow> store \<Rightarrow> string \<Rightarrow> jsval \<Rightarrow> store \<times> response" where
  "patchCrop pf s crop_id updatedData =
     (case new_ObjectId crop_id of
        None \<Rightarrow> (s, SendStatus 500 FailedToUpdateCrop)
      | Some oid \<Rightarrow>
          (case update_set pf oid updatedData s of
             Inl e \<Rightarrow> (s, SendStatus 500 FailedToUpdateCrop)
           | Inr (s', m, n) \<Rightarrow> (s', Send (UpdateResult m n))))"

section \<open>GET /api/my-interests\<close>

text \<open>The object pushed to \<^verbatim>\<open>myInterests\<close> for interest \<open>i\<close> of \<open>crop\<close>.\<close>

definition projected :: "doc \<Rightarrow> jsval \<Rightarrow> jsval" where
  "projected crop i =
     JObj [(''_id'', js_prop i ''_id''),
           (''cropName'', doc_prop crop ''name''),
           (''ownerName'', opt_prop (doc_prop crop ''owner'') ''ownerName''),
           (''quantity'', js_prop i ''quantity''),
           (''message'', js_prop i ''message''),
           (''status'', js_prop i ''status'')]"

text \<open>\<^verbatim>\<open>crop.interests.forEach(i => { if (i.userEmail === email) myInterests.push(...) })\<close>.\<close>

fun forEach_interest :: "jsval \<Rightarrow> doc \<Rightarrow> jsval list \<Rightarrow> jsval list \<Rightarrow> js_error + jsval list" where
  "forEach_interest email crop [] myInterests = Inr myInterests"
| "forEach_interest email crop (i # rest) myInterests =
     (case get_prop i ''userEmail'' of
        Inl e \<Rightarrow> Inl e
      | Inr v \<Rightarrow>
          forEach_interest email crop rest
            (if strict_eq v email then myInterests @ [projected crop i] else myInterests))"

fun forEach_crop :: "jsval \<Rightarrow> doc list \<Rightarrow> jsval list \<Rightarrow> js_error + jsval list" where
  "forEach_crop email [] myInterests = Inr myInterests"
| "forEach_crop email (crop # rest) myInterests =
     (case doc_prop crop ''interests'' of
        JArr es \<Rightarrow>
          (case forEach_interest email crop es myInterests of
             Inl e \<Rightarrow> Inl e
           | Inr myInterests' \<Rightarrow> forEach_crop email rest myInterests')
      | _ \<Rightarrow> Inl TypeError)"

text \<open>The filter \<^verbatim>\<open>{ "interests.userEmail": email }\<close>.\<close>

definition userEmail_filter :: "platform \<Rightarrow> jsval \<Rightarrow> doc \<Rightarrow> bool" where
  "userEmail_filter pf email d =
     (case email of
        JStr e \<Rightarrow> interests_path_matches ''userEmail'' (JStr e) d
      | _ \<Rightarrow> filter_other pf email d)"

definition listMyInterests :: "platform \<Rightarrow> store \<Rightarrow> jsval \<Rightarrow> response" where
  "listMyInterests pf s email =
     (if \<not> truthy email then SendStatus 400 EmailIsRequired
      else
        (case forEach_crop email (filter (userEmail_filter pf email) s) [] of
           Inl e \<Rightarrow> SendStatus 500 FailedToFetchInterests
         | Inr myInterests \<Rightarrow> Send (JArr myInterests)))"

section \<open>Requests in sequence and in parallel\<close>

fun is_Send :: "response \<Rightarrow> bool" where
  "is_Send (Send v) = True"
| "is_Send _ = False"

text \<open>
  Calls of \<open>submitInterest\<close> for one crop, one after the other: each call is a body with
  the values of \<^verbatim>\<open>new ObjectId()\<close> and \<^verbatim>\<open>new Date()\<close> it will see. The result lists, call by
  call, the store the call left and its response.
\<close>

fun submit_all ::
  "platform \<Rightarrow> store \<Rightarrow> string \<Rightarrow> (jsval \<times> string \<times> nat) list \<Rightarrow> (store \<times> response) list" where
  "submit_all pf s cropId [] = []"
| "submit_all pf s cropId ((body, interestId, now) # calls) =
     (let r = submitInterest pf s cropId body interestId now
      in r # submit_all pf (fst r) cropId calls)"

text \<open>
  Requests in flight. The handler of a submission gives up control at its two awaits, so
  another request's \<^verbatim>\<open>findOne\<close> or \<^verbatim>\<open>updateOne\<close> can reach the store between this request's
  read and its write; each store operation alone is atomic. A request has arrived, or has
  passed its checks and is about to write, or has responded.
\<close>

datatype request_state =
    Arrived string jsval string nat
  | AwaitingWrite "string \<times> doc"
  | Responded response

fun advance :: "platform \<Rightarrow> store \<Rightarrow> request_state \<Rightarrow> store \<times> request_state" where
  "advance pf s (Arrived cropId body interestId now) =
     (case submit_read pf s cropId body interestId now of
        Inl r \<Rightarrow> (s, Responded r)
      | Inr w \<Rightarrow> (s, AwaitingWrite w))"
| "advance pf s (AwaitingWrite w) = (case submit_write s w of (s', r) \<Rightarrow> (s', Responded r))"
| "advance pf s (Responded r) = (s, Responded r)"

text \<open>A schedule names, step by step, the request that runs to its next await.\<close>

fun run_schedule ::
  "platform \<Rightarrow> nat list \<Rightarrow> store \<times> request_state list \<Rightarrow> store \<times> request_state list" where
  "run_schedule pf [] st = st"
| "run_schedule pf (k # ks) (s, rs) =
     (if k < length rs
      then (case advance pf s (rs ! k) of (s', r') \<Rightarrow> run_schedule pf ks (s', rs[k := r']))
      else run_schedule pf ks (s, rs))"

section \<open>The projection of my-interests, as the specification words it\<close>

text \<open>
  The specification speaks of records, not of JavaScript objects: a Crop has a \<^verbatim>\<open>name\<close>,
  an \<^verbatim>\<open>owner\<close> with an \<^verbatim>\<open>ownerName\<close>, and a sequence \<^verbatim>\<open>interests\<close> of Interest records;
  an Interest has an \<^verbatim>\<open>id\<close> (the field \<^verbatim>\<open>_id\<close> of the store and of the wire), a
  \<^verbatim>\<open>userEmail\<close>, a \<^verbatim>\<open>quantity\<close>, a \<^verbatim>\<open>message\<close> and a \<^verbatim>\<open>status\<close>. The definitions of this
  section are written from those words and use nothing of the handler. An attribute that
  a record does not have is \<^verbatim>\<open>undefined\<close>.
\<close>

definition attribute :: "doc \<Rightarrow> string \<Rightarrow> jsval" where
  "attribute r k = (case map_of r k of Some v \<Rightarrow> v | None \<Rightarrow> JUndefined)"

definition interests_of :: "doc \<Rightarrow> jsval list" where
  "interests_of crop = (case map_of crop ''interests'' of Some (JArr es) \<Rightarrow> es | _ \<Rightarrow> [])"

text \<open>The Interest records among the elements of a sequence.\<close>

fun records_of :: "jsval list \<Rightarrow> doc list" where
  "records_of [] = []"
| "records_of (JObj r # es) = r # records_of es"
| "records_of (e # es) = records_of es"

text \<open>The Interests of a crop whose \<^verbatim>\<open>userEmail\<close> is \<open>e\<close>.\<close>

definition interests_by :: "string \<Rightarrow> doc \<Rightarrow> doc list" where
  "interests_by e crop =
     filter (\<lambda>r. map_of r ''userEmail'' = Some (JStr e)) (records_of (interests_of crop))"

text \<open>
  The projected record \<^verbatim>\<open>{ id, cropName, ownerName, quantity, message, status }\<close> of
  Interest \<open>r\<close> of \<open>crop\<close>.
\<close>

definition spec_record :: "doc \<Rightarrow> doc \<Rightarrow> jsval" where
  "spec_record crop r =
     JObj [(''_id'', attribute r ''_id''),
           (''cropName'', attribute crop ''name''),
           (''ownerName'',
              (case map_of crop ''owner'' of
                 Some (JObj owner) \<Rightarrow> attribute owner ''ownerName''
               | _ \<Rightarrow> JUndefined)),
           (''quantity'', attribute r ''quantity''),
           (''message'', attribute r ''message''),
           (''status'', attribute r ''status'')]"

text \<open>
  For each Interest whose \<^verbatim>\<open>userEmail\<close> is the argument, across all crops, one projected
  record; a crop whose \<^verbatim>\<open>interests\<close> is absent or empty has no Interests.
\<close>

definition crop_records :: "string \<Rightarrow> doc \<Rightarrow> jsval list" where
  "crop_records e crop = map (spec_record crop) (interests_by e crop)"

definition spec_my_interests :: "string \<Rightarrow> store \<Rightarrow> jsval list" where
  "spec_my_interests e s = concat (map (crop_records e) s)"

text \<open>
  A crop of the data model: its \<^verbatim>\<open>interests\<close>, when it is an array, holds no \<^verbatim>\<open>null\<close>, and
  it is not a single embedded document.
\<close>

definition interests_well_formed :: "doc \<Rightarrow> bool" where
  "interests_well_formed crop =
     (case map_of crop ''interests'' of
        Some (JArr es) \<Rightarrow> list_all (\<lambda>i. \<not> is_nullish i) es
      | Some (JObj fs) \<Rightarrow> False
      | _ \<Rightarrow> True)"

section \<open>Concrete requests and stores\<close>

text \<open>
  A platform for the instances below. An object of a JSON body is converted for
  \<^verbatim>\<open>v < 1\<close> by \<^verbatim>\<open>valueOf\<close>, then \<^verbatim>\<open>toString\<close>: an own property \<^verbatim>\<open>toString\<close> is not callable,
  and the conversion throws; without one the object becomes \<^verbatim>\<open>"[object Object]"\<close>, which
  is \<^verbatim>\<open>NaN\<close>, and the comparison is false. No instance below compares a string or an array
  with 1, gives a filter that is not a string, or sets a key that is not plain; on those
  the platform's answers are arbitrary.
\<close>

definition example_platform :: platform where
  "example_platform =
     \<lparr> less_than_one =
         (\<lambda>v. case v of
                JObj fs \<Rightarrow> if map_of fs ''toString'' = None then Inr False else Inl TypeError
              | _ \<Rightarrow> Inr False),
       filter_other = (\<lambda>q d. False),
       set_other = (\<lambda>oid fs s. Inl MongoServerError) \<rparr>"

text \<open>A quantity that cannot be converted to a number.\<close>

definition unconvertible :: jsval where
  "unconvertible = JObj [(''valueOf'', JNum 1), (''toString'', JNum 1)]"

definition id_C :: string where "id_C = ''64b7f0a1c2d3e4f5a6b7c8d9''"

definition id_I :: string where "id_I = ''64b7f0a1c2d3e4f5a6b7c8e1''"

definition id_J :: string where "id_J = ''64b7f0a1c2d3e4f5a6b7c8e2''"

text \<open>Crop \<open>C\<close> of the specification's scenario: its owner is \<^verbatim>\<open>a@x.com\<close>.\<close>

definition crop_C :: doc where
  "crop_C =
     [(''_id'', JObjectId id_C),
      (''name'', JStr ''Rice''),
      (''owner'', JObj [(''ownerEmail'', JStr ''a@x.com''), (''ownerName'', JStr ''A'')])]"

definition crop_with :: "jsval list \<Rightarrow> doc" where
  "crop_with es = crop_C @ [(''interests'', JArr es)]"

definition interest_body :: "string \<Rightarrow> string \<Rightarrow> jsval \<Rightarrow> jsval" where
  "interest_body userEmail userName quantity =
     JObj [(''userEmail'', JStr userEmail), (''userName'', JStr userName),
           (''quantity'', quantity)]"

text \<open>An interest as \<open>submitInterest\<close> builds it, and as the store holds it.\<close>

definition sent_interest :: "string \<Rightarrow> string \<Rightarrow> string \<Rightarrow> jsval \<Rightarrow> jsval" where
  "sent_interest interestId userEmail userName quantity =
     JObj (newInterest interestId id_C (JStr userEmail) (JStr userName) quantity JUndefined 0)"

definition stored_interest :: "string \<Rightarrow> string \<Rightarrow> string \<Rightarrow> jsval \<Rightarrow> string \<Rightarrow> jsval" where
  "stored_interest interestId userEmail userName quantity status =
     JObj [(''_id'', JObjectId interestId), (''cropId'', JStr id_C),
           (''userEmail'', JStr userEmail), (''userName'', JStr userName),
           (''quantity'', quantity), (''message'', JNull),
           (''status'', JStr status), (''createdAt'', JDate 0)]"

definition id_D :: string where "id_D = ''64b7f0a1c2d3e4f5a6b7c8da''"

text \<open>A second crop, of owner \<^verbatim>\<open>d@x.com\<close>, with the given interests.\<close>

definition crop_D :: "jsval list \<Rightarrow> doc" where
  "crop_D es =
     [(''_id'', JObjectId id_D),
      (''name'', JStr ''Wheat''),
      (''owner'', JObj [(''ownerEmail'', JStr ''d@x.com''), (''ownerName'', JStr ''D'')]),
      (''interests'', JArr es)]"

text \<open>
  Three submissions of \<^verbatim>\<open>b@x.com\<close> for crop \<open>C\<close>: a first one, a second one that differs
  in the quantity only, and a third one whose quantity is 0.
\<close>

definition three_calls :: "(jsval \<times> string \<times> nat) list" where
  "three_calls =
     [(interest_body ''b@x.com'' ''B'' (JNum 2), id_I, 0),
      (interest_body ''b@x.com'' ''B'' (JNum 3), id_J, 0),
      (interest_body ''b@x.com'' ''B'' (JNum 0), id_J, 0)]"

text \<open>The same three, and a fourth whose quantity cannot be converted.\<close>

definition four_calls :: "(jsval \<times> string \<times> nat) list" where
  "four_calls = three_calls @ [(interest_body ''b@x.com'' ''B'' unconvertible, id_J, 0)]"

section \<open>Evaluation\<close>

lemmas js_defs = strict_eq_def get_prop_def opt_prop_def doc_prop_def quantity_lt_1_def
  is_hex_digit_def lower_hex_def ObjectId_isValid_def new_ObjectId_def

lemmas store_defs = id_matches_def findOne_def bson_value_def to_bson_def push_interests_def
  field_equals_def elem_has_def interests_path_matches_def set_interest_status_def

lemmas submit_defs = submitInterest_def submit_read_def submit_write_def existingInterest_def
  newInterest_def

lemmas example_defs = example_platform_def unconvertible_def id_C_def id_I_def id_J_def crop_C_def crop_with_def
  interest_body_def sent_interest_def stored_interest_def

section \<open>Facts about the store\<close>

lemma updateOne_no_match:
  "find q s = None \<Longrightarrow> updateOne q u s = Inr (s, 0, 0)"
  by (induction s) (auto split: if_splits)

lemma updateOne_rejected:
  "find q s = Some d \<Longrightarrow> u d = Inl e \<Longrightarrow> updateOne q u s = Inl e"
  by (induction s) (auto split: if_splits)

lemma updateOne_at:
  assumes "\<forall>d \<in> set pre. \<not> q d" and "q d" and "u d = Inr d'"
  shows "updateOne q u (pre @ d # post) = Inr (pre @ d' # post, 1, if d' = d then 0 else 1)"
  using assms by (induction pre) auto

lemma find_at:
  assumes "\<forall>d \<in> set pre. \<not> q d" and "q d"
  shows "find q (pre @ d # post) = Some d"
  using assms by (induction pre) auto

lemma find_split:
  "find q s = Some d \<Longrightarrow> \<exists>pre post. s = pre @ d # post \<and> (\<forall>x \<in> set pre. \<not> q x) \<and> q d"
proof (induction s)
  case Nil
  then show ?case by simp
next
  case (Cons a s)
  show ?case
  proof (cases "q a")
    case True
    with Cons.prems have "a = d" by simp
    with True show ?thesis by (intro exI[of _ "[]"] exI[of _ s]) simp
  next
    case False
    with Cons obtain pre post where "s = pre @ d # post" "\<forall>x \<in> set pre. \<not> q x" "q d" by auto
    with False show ?thesis by (intro exI[of _ "a # pre"] exI[of _ post]) simp
  qed
qed

lemma findOne_split:
  assumes "findOne s q = Some d"
  shows "\<exists>pre post. s = pre @ d # post \<and> (\<forall>x \<in> set pre. \<not> q x) \<and> q d"
  using assms unfolding findOne_def by (rule find_split)

lemma updateOne_found:
  assumes "findOne s q = Some d" and "updateOne q u s = Inr (s', m, n)"
  shows "\<exists>d'. u d = Inr d' \<and> (q d' \<longrightarrow> findOne s' q = Some d')"
proof -
  from findOne_split[OF assms(1)] obtain pre post where
    s: "s = pre @ d # post" and pre: "\<forall>x \<in> set pre. \<not> q x" and d: "q d"
    by (elim exE conjE)
  show ?thesis
  proof (cases "u d")
    case (Inl e)
    have "find q s = Some d" using assms(1) by (simp only: findOne_def)
    from updateOne_rejected[of q s d u e, OF this Inl] assms(2) show ?thesis by simp
  next
    case (Inr d')
    have "updateOne q u s = Inr (pre @ d' # post, 1, if d' = d then 0 else 1)"
      unfolding s by (rule updateOne_at[of pre q d u d' post, OF pre d Inr])
    with assms(2) have s': "pre @ d' # post = s'" by simp
    have "q d' \<longrightarrow> findOne s' q = Some d'"
      unfolding s'[symmetric] findOne_def using find_at[of pre q d' post, OF pre] by blast
    with Inr show ?thesis by (intro exI[of _ d']) simp
  qed
qed

lemma updateOne_findOne:
  assumes "findOne s q = Some d" and "u d = Inr d'" and "q d'"
  shows "\<exists>s'. updateOne q u s = Inr (s', 1, if d' = d then 0 else 1) \<and> findOne s' q = Some d'"
proof -
  from findOne_split[of s q d, OF assms(1)] obtain pre post where
    s: "s = pre @ d # post" and pre: "\<forall>x \<in> set pre. \<not> q x" and d: "q d"
    by (elim exE conjE)
  have "updateOne q u s = Inr (pre @ d' # post, 1, if d' = d then 0 else 1)"
    unfolding s by (rule updateOne_at[of pre q d u d' post, OF pre d assms(2)])
  moreover have "findOne (pre @ d' # post) q = Some d'"
    unfolding findOne_def by (rule find_at[of pre q d' post, OF pre assms(3)])
  ultimately show ?thesis by blast
qed

lemma id_matches_update: "k \<noteq> ''_id'' \<Longrightarrow> id_matches oid (AList.update k v d) = id_matches oid d"
  by (simp add: id_matches_def update_conv')

lemma map_of_rev_distinct:
  "distinct (map fst xs) \<Longrightarrow> map_of (rev xs) = map_of xs"
proof (induction xs)
  case Nil
  then show ?case by simp
next
  case (Cons kv xs)
  then have "fst kv \<notin> fst ` set xs" and IH: "map_of (rev xs) = map_of xs" by auto
  then have "map_of xs (fst kv) = None" by (simp add: map_of_eq_None_iff)
  with IH show ?case
    by (cases kv) (auto simp: fun_eq_iff map_add_def split: option.splits)
qed

section \<open>Facts about values and array searches\<close>

lemma truthy_prop_obj: "truthy (js_prop i k) \<Longrightarrow> truthy i \<and> \<not> is_nullish i"
  by (cases i) auto

lemma strict_eq_truthy: "strict_eq v u \<Longrightarrow> truthy u \<Longrightarrow> truthy v"
  by (simp add: strict_eq_def)

lemma nullish_props: "is_nullish body \<Longrightarrow> js_prop body k = JUndefined"
  by (cases body) auto

lemma is_Send_iff: "is_Send r \<longleftrightarrow> (\<exists>v. r = Send v)"
  by (cases r) auto

lemma set_first_at:
  assumes "\<forall>e \<in> set es1. \<not> p e" and "p e"
  shows "set_first p f (es1 @ e # es2) = es1 @ f e # es2"
  using assms by (induction es1) auto

lemma list_ex_at: "p e \<Longrightarrow> list_ex p (es1 @ e # es2)"
  by (simp add: list_ex_iff)

lemma find_interest_append:
  assumes "truthy u" and "find_interest u es = Inr f" and "\<not> truthy f"
  shows "find_interest u (es @ [x]) =
           (case get_prop x ''userEmail'' of
              Inl e \<Rightarrow> Inl e
            | Inr v \<Rightarrow> if strict_eq v u then Inr x else Inr JUndefined)"
  using assms
proof (induction es)
  case Nil
  then show ?case by (simp split: sum.splits)
next
  case (Cons i es)
  show ?case
  proof (cases "is_nullish i")
    case True
    with Cons.prems show ?thesis by (simp add: get_prop_def)
  next
    case False
    show ?thesis
    proof (cases "strict_eq (js_prop i ''userEmail'') u")
      case True
      with Cons.prems(1) have "truthy i"
        using strict_eq_truthy truthy_prop_obj by blast
      with Cons.prems True False show ?thesis by (simp add: get_prop_def)
    next
      case ne: False
      with Cons False show ?thesis by (simp add: get_prop_def)
    qed
  qed
qed

lemma existingInterest_absent:
  assumes "existingInterest crop u = Inr f" and "\<not> truthy f" and "truthy u"
  shows "find_interest u (interests_of crop) = Inr f \<or> (interests_of crop = [] \<and> f = JUndefined)"
  using assms
  by (auto simp: existingInterest_def doc_prop_def interests_of_def split: option.splits jsval.splits)

lemma existingInterest_array:
  assumes "map_of crop ''interests'' = None \<or> (\<exists>es. map_of crop ''interests'' = Some (JArr es))"
  shows "existingInterest crop u = find_interest u (interests_of crop)"
  using assms by (auto simp: existingInterest_def doc_prop_def interests_of_def)

lemma push_interests_result:
  assumes "push_interests x crop = Inr crop'"
  shows "map_of crop' ''interests'' = Some (JArr (interests_of crop @ [x]))
         \<and> (\<forall>k. k \<noteq> ''interests'' \<longrightarrow> map_of crop' k = map_of crop k)"
  using assms
  by (auto simp: push_interests_def interests_of_def update_conv'
      split: option.splits jsval.splits)

lemma push_interests_array:
  assumes "map_of crop ''interests'' = None \<or> (\<exists>es. map_of crop ''interests'' = Some (JArr es))"
  shows "push_interests x crop = Inr (AList.update ''interests'' (JArr (interests_of crop @ [x])) crop)"
  using assms by (auto simp: push_interests_def interests_of_def)

section \<open>Facts about one submission\<close>

text \<open>What a successful submission went through.\<close>

lemma submit_success_cases:
  assumes "submitInterest pf s cropId body interestId now = (s', Send v)"
  shows "\<exists>oid crop f m n.
           \<not> is_nullish body \<and> truthy (js_prop body ''userEmail'') \<and> truthy (js_prop body ''userName'')
           \<and> truthy (js_prop body ''quantity'') \<and> quantity_lt_1 pf (js_prop body ''quantity'') = Inr False
           \<and> new_ObjectId cropId = Some oid \<and> findOne s (id_matches oid) = Some crop
           \<and> \<not> strict_eq (opt_prop (doc_prop crop ''owner'') ''ownerEmail'') (js_prop body ''userEmail'')
           \<and> existingInterest crop (js_prop body ''userEmail'') = Inr f \<and> \<not> truthy f
           \<and> v = JObj (newInterest interestId cropId (js_prop body ''userEmail'') (js_prop body ''userName'')
                         (js_prop body ''quantity'') (js_prop body ''message'') now)
           \<and> updateOne (id_matches oid) (push_interests (JObj (to_bson
                  (newInterest interestId cropId (js_prop body ''userEmail'') (js_prop body ''userName'')
                         (js_prop body ''quantity'') (js_prop body ''message'') now)))) s = Inr (s', m, n)"
  using assms
  by (auto simp: submitInterest_def submit_read_def submit_write_def Let_def
      split: if_splits sum.splits option.splits bool.splits prod.splits)

text \<open>The handler after its validation.\<close>

lemma submit_read_valid:
  assumes "\<not> is_nullish body" and "truthy (js_prop body ''userEmail'')"
    and "truthy (js_prop body ''userName'')" and "truthy (js_prop body ''quantity'')"
    and "quantity_lt_1 pf (js_prop body ''quantity'') = Inr False"
    and "new_ObjectId cropId = Some oid"
  shows "submit_read pf s cropId body interestId now =
     (case findOne s (id_matches oid) of
        None \<Rightarrow> Inl (SendStatus 404 CropNotFound)
      | Some crop \<Rightarrow>
          if strict_eq (opt_prop (doc_prop crop ''owner'') ''ownerEmail'') (js_prop body ''userEmail'')
          then Inl (SendStatus 403 OwnerCannotSendInterest)
          else
            (case existingInterest crop (js_prop body ''userEmail'') of
               Inl e \<Rightarrow> Inl (SendStatus 500 FailedToSubmitInterest)
             | Inr found \<Rightarrow>
                 if truthy found then Inl (SendStatus 400 AlreadySentInterest)
                 else Inr (oid,
                   newInterest interestId cropId (js_prop body ''userEmail'')
                     (js_prop body ''userName'') (js_prop body ''quantity'')
                     (js_prop body ''message'') now)))"
  unfolding submit_read_def Let_def using assms by simp

lemma submit_store_unchanged:
  "\<not> is_Send (snd (submitInterest pf s cropId body interestId now))
   \<Longrightarrow> fst (submitInterest pf s cropId body interestId now) = s"
  by (auto simp: submitInterest_def submit_write_def split: sum.splits prod.splits)

text \<open>
  After a successful submission the crop holds an interest that the next read of the
  same \<^verbatim>\<open>userEmail\<close> finds.
\<close>

lemma after_success:
  assumes ok: "submitInterest pf s cropId body interestId now = (s', Send v)"
    and prim: "is_primitive (js_prop body ''userEmail'')"
    and oid: "new_ObjectId cropId = Some oid"
  shows "\<exists>crop' f'. findOne s' (id_matches oid) = Some crop'
           \<and> \<not> strict_eq (opt_prop (doc_prop crop' ''owner'') ''ownerEmail'') (js_prop body ''userEmail'')
           \<and> existingInterest crop' (js_prop body ''userEmail'') = Inr f' \<and> truthy f'"
proof -
  let ?u = "js_prop body ''userEmail''"
  let ?ni = "newInterest interestId cropId ?u (js_prop body ''userName'')
               (js_prop body ''quantity'') (js_prop body ''message'') now"
  from submit_success_cases[OF ok] oid obtain crop f m n where
    u: "truthy ?u" and crop: "findOne s (id_matches oid) = Some crop"
    and owner: "\<not> strict_eq (opt_prop (doc_prop crop ''owner'') ''ownerEmail'') ?u"
    and ex: "existingInterest crop ?u = Inr f" "\<not> truthy f"
    and upd: "updateOne (id_matches oid) (push_interests (JObj (to_bson ?ni))) s = Inr (s', m, n)"
    by auto
  from updateOne_found[of s "id_matches oid" crop "push_interests (JObj (to_bson ?ni))" s' m n, OF crop upd]
  obtain crop' where
    push: "push_interests (JObj (to_bson ?ni)) crop = Inr crop'"
    and found: "id_matches oid crop' \<longrightarrow> findOne s' (id_matches oid) = Some crop'" by blast
  note res = push_interests_result[OF push]
  have "id_matches oid crop" using findOne_split[of s "id_matches oid" crop, OF crop] by blast
  with res have "id_matches oid crop'" by (simp add: id_matches_def)
  with found have f': "findOne s' (id_matches oid) = Some crop'" by simp
  have own': "doc_prop crop' ''owner'' = doc_prop crop ''owner''"
    using res by (simp add: doc_prop_def)
  have bu: "bson_value ?u = ?u" using u by (auto simp: bson_value_def)
  have new_email: "get_prop (JObj (to_bson ?ni)) ''userEmail'' = Inr ?u"
    by (simp add: get_prop_def to_bson_def newInterest_def bu)
  have base: "find_interest ?u (interests_of crop) = Inr f \<or> find_interest ?u (interests_of crop) = Inr JUndefined"
    using existingInterest_absent[OF ex u] by auto
  have "find_interest ?u (interests_of crop @ [JObj (to_bson ?ni)]) = Inr (JObj (to_bson ?ni))"
    using base
  proof
    assume "find_interest ?u (interests_of crop) = Inr f"
    from find_interest_append[OF u this ex(2)] show ?thesis
      using new_email prim by (simp add: strict_eq_def)
  next
    assume "find_interest ?u (interests_of crop) = Inr JUndefined"
    from find_interest_append[OF u this] show ?thesis
      using new_email prim by (simp add: strict_eq_def)
  qed
  then have ex': "existingInterest crop' ?u = Inr (JObj (to_bson ?ni))"
    using res by (simp add: existingInterest_def doc_prop_def)
  have "\<not> strict_eq (opt_prop (doc_prop crop' ''owner'') ''ownerEmail'') ?u"
    using owner by (simp add: own')
  with f' ex' show ?thesis
    by (intro exI[of _ crop'] exI[of _ "JObj (to_bson ?ni)"]) simp
qed

lemma submit_when_already_sent:
  assumes oid: "new_ObjectId cropId = Some oid"
    and crop: "findOne s (id_matches oid) = Some crop"
    and owner: "\<not> strict_eq (opt_prop (doc_prop crop ''owner'') ''ownerEmail'') (js_prop body ''userEmail'')"
    and ex: "existingInterest crop (js_prop body ''userEmail'') = Inr f" "truthy f"
    and u: "truthy (js_prop body ''userEmail'')"
  shows "submitInterest pf s cropId body interestId now =
           (s, (if \<not> truthy (js_prop body ''userName'') then SendStatus 400 UserInfoRequired
                else if \<not> truthy (js_prop body ''quantity'') then SendStatus 400 QuantityAtLeast1
                else (case quantity_lt_1 pf (js_prop body ''quantity'') of
                        Inl e \<Rightarrow> SendStatus 500 FailedToSubmitInterest
                      | Inr True \<Rightarrow> SendStatus 400 QuantityAtLeast1
                      | Inr False \<Rightarrow> SendStatus 400 AlreadySentInterest)))"
proof -
  have body: "\<not> is_nullish body" using u truthy_prop_obj by blast
  have "submit_read pf s cropId body interestId now =
           Inl (if \<not> truthy (js_prop body ''userName'') then SendStatus 400 UserInfoRequired
                else if \<not> truthy (js_prop body ''quantity'') then SendStatus 400 QuantityAtLeast1
                else (case quantity_lt_1 pf (js_prop body ''quantity'') of
                        Inl e \<Rightarrow> SendStatus 500 FailedToSubmitInterest
                      | Inr True \<Rightarrow> SendStatus 400 QuantityAtLeast1
                      | Inr False \<Rightarrow> SendStatus 400 AlreadySentInterest))"
    using body u oid crop owner ex
    by (simp add: submit_read_def Let_def split: sum.splits bool.splits)
  then show ?thesis by (simp add: submitInterest_def)
qed

lemma refusal_is_not_Send:
  "\<not> is_Send (if \<not> truthy (js_prop body ''userName'') then SendStatus 400 UserInfoRequired
       else if \<not> truthy (js_prop body ''quantity'') then SendStatus 400 QuantityAtLeast1
       else (case quantity_lt_1 pf (js_prop body ''quantity'') of
               Inl e \<Rightarrow> SendStatus 500 FailedToSubmitInterest
             | Inr True \<Rightarrow> SendStatus 400 QuantityAtLeast1
             | Inr False \<Rightarrow> SendStatus 400 AlreadySentInterest))"
  by (simp split: sum.splits bool.splits)

lemma submit_success:
  assumes body: "\<not> is_nullish body" and user: "truthy (js_prop body ''userEmail'')"
      "truthy (js_prop body ''userName'')"
    and q: "truthy (js_prop body ''quantity'')" "quantity_lt_1 pf (js_prop body ''quantity'') = Inr False"
    and oid: "new_ObjectId cropId = Some oid" and crop: "findOne s (id_matches oid) = Some crop"
    and owner: "\<not> strict_eq (opt_prop (doc_prop crop ''owner'') ''ownerEmail'') (js_prop body ''userEmail'')"
    and arr: "map_of crop ''interests'' = None \<or> (\<exists>es. map_of crop ''interests'' = Some (JArr es))"
    and none: "find_interest (js_prop body ''userEmail'') (interests_of crop) = Inr JUndefined"
    and ni: "ni = newInterest interestId cropId (js_prop body ''userEmail'') (js_prop body ''userName'')
                    (js_prop body ''quantity'') (js_prop body ''message'') now"
  shows "\<exists>s'. submitInterest pf s cropId body interestId now = (s', Send (JObj ni))
           \<and> findOne s' (id_matches oid)
               = Some (AList.update ''interests'' (JArr (interests_of crop @ [JObj (to_bson ni)])) crop)"
proof -
  let ?crop' = "AList.update ''interests'' (JArr (interests_of crop @ [JObj (to_bson ni)])) crop"
  have ex: "existingInterest crop (js_prop body ''userEmail'') = Inr JUndefined"
    using existingInterest_array[OF arr] none by simp
  have read: "submit_read pf s cropId body interestId now = Inr (oid, ni)"
    using submit_read_valid[of body pf cropId oid s interestId now, OF body user q oid] crop owner ex ni
    by simp
  have push: "push_interests (JObj (to_bson ni)) crop = Inr ?crop'"
    by (rule push_interests_array[OF arr])
  have "id_matches oid crop"
    using findOne_split[of s "id_matches oid" crop, OF crop] by blast
  then have "id_matches oid ?crop'" by (simp add: id_matches_update)
  from updateOne_findOne[of s "id_matches oid" crop "push_interests (JObj (to_bson ni))" ?crop',
      OF crop push this]
  obtain s' where "updateOne (id_matches oid) (push_interests (JObj (to_bson ni))) s
        = Inr (s', 1, if ?crop' = crop then 0 else 1)"
    and found: "findOne s' (id_matches oid) = Some ?crop'" by blast
  then have "submitInterest pf s cropId body interestId now = (s', Send (JObj ni))"
    by (simp add: submitInterest_def read submit_write_def)
  with found show ?thesis by blast
qed

lemma quantity_rejected:
  assumes body: "\<not> is_nullish body"
    and q: "js_prop body ''quantity'' = JUndefined \<or> js_prop body ''quantity'' = JNull
            \<or> (\<exists>n. js_prop body ''quantity'' = JNum n \<and> n < 1)"
  shows "submitInterest pf s cropId body interestId now =
           (s, if truthy (js_prop body ''userEmail'') \<and> truthy (js_prop body ''userName'')
               then SendStatus 400 QuantityAtLeast1 else SendStatus 400 UserInfoRequired)"
  using assms
  by (auto simp: submitInterest_def submit_read_def Let_def quantity_lt_1_def)

section \<open>Facts about submissions in sequence\<close>

lemma length_submit_all: "length (submit_all pf s cropId calls) = length calls"
  by (induction calls arbitrary: s) (auto simp: Let_def)

lemma submit_all_nth:
  assumes "k < length calls"
  shows "submit_all pf s cropId calls ! k =
           (case calls ! k of (body, interestId, now) \<Rightarrow>
              submitInterest pf (if k = 0 then s else fst (submit_all pf s cropId calls ! (k - 1)))
                cropId body interestId now)"
  using assms
proof (induction calls arbitrary: s k)
  case Nil
  then show ?case by simp
next
  case (Cons c calls)
  obtain body interestId now where c: "c = (body, interestId, now)" by (cases c) auto
  show ?case
  proof (cases k)
    case 0
    with c show ?thesis by (simp add: Let_def)
  next
    case (Suc k')
    with Cons.prems have k': "k' < length calls" by simp
    show ?thesis
    proof (cases k')
      case 0
      with Suc c Cons.IH[OF k', of "fst (submitInterest pf s cropId body interestId now)"]
      show ?thesis by (simp add: Let_def)
    next
      case (Suc k'')
      with \<open>k = Suc k'\<close> c Cons.IH[OF k', of "fst (submitInterest pf s cropId body interestId now)"]
      show ?thesis by (simp add: Let_def)
    qed
  qed
qed

lemma submit_all_store_step:
  assumes "k < length calls" and "\<not> is_Send (snd (submit_all pf s cropId calls ! k))"
  shows "fst (submit_all pf s cropId calls ! k) =
           (if k = 0 then s else fst (submit_all pf s cropId calls ! (k - 1)))"
proof -
  obtain body interestId now where c: "calls ! k = (body, interestId, now)"
    by (cases "calls ! k") auto
  from submit_all_nth[OF assms(1), of pf s cropId] c assms(2)
  show ?thesis by (simp add: submit_store_unchanged)
qed

lemma already_sent_all:
  assumes oid: "new_ObjectId cropId = Some oid"
    and crop: "findOne s (id_matches oid) = Some crop"
    and owner: "\<not> strict_eq (opt_prop (doc_prop crop ''owner'') ''ownerEmail'') userEmail"
    and ex: "existingInterest crop userEmail = Inr f" "truthy f"
    and u: "truthy userEmail"
    and same: "\<forall>c \<in> set calls. js_prop (fst c) ''userEmail'' = userEmail"
    and k: "k < length calls"
  shows "fst (submit_all pf s cropId calls ! k) = s
       \<and> snd (submit_all pf s cropId calls ! k) =
           (if \<not> truthy (js_prop (fst (calls ! k)) ''userName'') then SendStatus 400 UserInfoRequired
            else if \<not> truthy (js_prop (fst (calls ! k)) ''quantity'') then SendStatus 400 QuantityAtLeast1
            else (case quantity_lt_1 pf (js_prop (fst (calls ! k)) ''quantity'') of
                    Inl e \<Rightarrow> SendStatus 500 FailedToSubmitInterest
                  | Inr True \<Rightarrow> SendStatus 400 QuantityAtLeast1
                  | Inr False \<Rightarrow> SendStatus 400 AlreadySentInterest))"
  using same k
proof (induction calls arbitrary: k)
  case Nil
  then show ?case by simp
next
  case (Cons c calls)
  obtain body interestId now where c: "c = (body, interestId, now)" by (cases c) auto
  from Cons.prems(1) c have email: "js_prop body ''userEmail'' = userEmail" by simp
  have here: "submitInterest pf s cropId body interestId now =
           (s, (if \<not> truthy (js_prop body ''userName'') then SendStatus 400 UserInfoRequired
                else if \<not> truthy (js_prop body ''quantity'') then SendStatus 400 QuantityAtLeast1
                else (case quantity_lt_1 pf (js_prop body ''quantity'') of
                        Inl e \<Rightarrow> SendStatus 500 FailedToSubmitInterest
                      | Inr True \<Rightarrow> SendStatus 400 QuantityAtLeast1
                      | Inr False \<Rightarrow> SendStatus 400 AlreadySentInterest)))"
    using submit_when_already_sent[of cropId oid s crop body f pf interestId now]
      oid crop owner ex u email by simp
  show ?case
  proof (cases k)
    case 0
    with here c show ?thesis by (simp add: Let_def)
  next
    case (Suc k')
    with Cons.prems have "k' < length calls" "\<forall>c \<in> set calls. js_prop (fst c) ''userEmail'' = userEmail"
      by auto
    from Cons.IH[OF this(2) this(1)] here Suc c show ?thesis by (simp add: Let_def)
  qed
qed

lemma after_first_success:
  assumes ok: "is_Send (snd (submitInterest pf s cropId body interestId now))"
    and prim: "is_primitive (js_prop body ''userEmail'')"
    and same: "\<forall>c \<in> set calls. js_prop (fst c) ''userEmail'' = js_prop body ''userEmail''"
    and k: "k < length calls"
  shows "fst (submit_all pf (fst (submitInterest pf s cropId body interestId now)) cropId calls ! k)
           = fst (submitInterest pf s cropId body interestId now)
       \<and> snd (submit_all pf (fst (submitInterest pf s cropId body interestId now)) cropId calls ! k) =
           (if \<not> truthy (js_prop (fst (calls ! k)) ''userName'') then SendStatus 400 UserInfoRequired
            else if \<not> truthy (js_prop (fst (calls ! k)) ''quantity'') then SendStatus 400 QuantityAtLeast1
            else (case quantity_lt_1 pf (js_prop (fst (calls ! k)) ''quantity'') of
                    Inl e \<Rightarrow> SendStatus 500 FailedToSubmitInterest
                  | Inr True \<Rightarrow> SendStatus 400 QuantityAtLeast1
                  | Inr False \<Rightarrow> SendStatus 400 AlreadySentInterest))"
proof -
  obtain s' r where r: "submitInterest pf s cropId body interestId now = (s', r)"
    by (cases "submitInterest pf s cropId body interestId now") auto
  with ok obtain v where v: "submitInterest pf s cropId body interestId now = (s', Send v)"
    by (auto simp: is_Send_iff)
  from submit_success_cases[of pf s cropId body interestId now s' v, OF v]
  obtain oid where oid: "new_ObjectId cropId = Some oid" and u: "truthy (js_prop body ''userEmail'')"
    by blast
  from after_success[of pf s cropId body interestId now s' v oid, OF v prim oid]
  obtain crop' f' where crop': "findOne s' (id_matches oid) = Some crop'"
    and owner': "\<not> strict_eq (opt_prop (doc_prop crop' ''owner'') ''ownerEmail'') (js_prop body ''userEmail'')"
    and ex': "existingInterest crop' (js_prop body ''userEmail'') = Inr f'" "truthy f'"
    by blast
  from already_sent_all[of cropId oid s' crop' "js_prop body ''userEmail''" f' calls k pf,
      OF oid crop' owner' ex' u same k]
  show ?thesis by (simp add: v)
qed

lemma resubmission_later:
  assumes prim: "is_primitive userEmail"
    and same: "\<forall>c \<in> set calls. js_prop (fst c) ''userEmail'' = userEmail"
    and jk: "j < k" "k < length calls"
    and ok: "is_Send (snd (submit_all pf s cropId calls ! j))"
  shows "fst (submit_all pf s cropId calls ! k) = fst (submit_all pf s cropId calls ! j)
       \<and> snd (submit_all pf s cropId calls ! k) =
           (if \<not> truthy (js_prop (fst (calls ! k)) ''userName'') then SendStatus 400 UserInfoRequired
            else if \<not> truthy (js_prop (fst (calls ! k)) ''quantity'') then SendStatus 400 QuantityAtLeast1
            else (case quantity_lt_1 pf (js_prop (fst (calls ! k)) ''quantity'') of
                    Inl e \<Rightarrow> SendStatus 500 FailedToSubmitInterest
                  | Inr True \<Rightarrow> SendStatus 400 QuantityAtLeast1
                  | Inr False \<Rightarrow> SendStatus 400 AlreadySentInterest))"
  using same jk ok
proof (induction calls arbitrary: s j k)
  case Nil
  then show ?case by simp
next
  case (Cons c calls)
  obtain body interestId now where c: "c = (body, interestId, now)" by (cases c) auto
  from Cons.prems(1) c have email: "js_prop body ''userEmail'' = userEmail"
    and rest: "\<forall>c \<in> set calls. js_prop (fst c) ''userEmail'' = userEmail" by simp_all
  from Cons.prems(2,3) obtain k' where k: "k = Suc k'" "k' < length calls" by (cases k) auto
  show ?case
  proof (cases j)
    case 0
    with Cons.prems(4) c have ok0: "is_Send (snd (submitInterest pf s cropId body interestId now))"
      by (simp add: Let_def)
    from after_first_success[of pf s cropId body interestId now calls k', OF ok0]
      prim rest email k(2)
    show ?thesis using 0 k c by (simp add: Let_def)
  next
    case (Suc j')
    with Cons.prems k c have "j' < k'"
      and "is_Send (snd (submit_all pf (fst (submitInterest pf s cropId body interestId now)) cropId calls ! j'))"
      by (simp_all add: Let_def)
    from Cons.IH[OF rest this(1) k(2) this(2)] show ?thesis
      using Suc k c by (simp add: Let_def)
  qed
qed

lemma at_most_one_sent:
  assumes prim: "is_primitive userEmail"
    and same: "\<forall>c \<in> set calls. js_prop (fst c) ''userEmail'' = userEmail"
  shows "length (filter (\<lambda>r. is_Send (snd r)) (submit_all pf s cropId calls)) \<le> 1"
  using same
proof (induction calls arbitrary: s)
  case Nil
  then show ?case by simp
next
  case (Cons c calls)
  obtain body interestId now where c: "c = (body, interestId, now)" by (cases c) auto
  from Cons.prems c have email: "js_prop body ''userEmail'' = userEmail"
    and rest: "\<forall>c \<in> set calls. js_prop (fst c) ''userEmail'' = userEmail" by simp_all
  let ?r = "submitInterest pf s cropId body interestId now"
  show ?case
  proof (cases "is_Send (snd ?r)")
    case True
    have "\<forall>x \<in> set (submit_all pf (fst ?r) cropId calls). \<not> is_Send (snd x)"
    proof
      fix x assume "x \<in> set (submit_all pf (fst ?r) cropId calls)"
      then obtain k where k: "k < length calls" "x = submit_all pf (fst ?r) cropId calls ! k"
        by (auto simp: in_set_conv_nth length_submit_all)
      from after_first_success[of pf s cropId body interestId now calls k, OF True] prim rest email k
      show "\<not> is_Send (snd x)" by (simp add: refusal_is_not_Send)
    qed
    then have "filter (\<lambda>r. is_Send (snd r)) (submit_all pf (fst ?r) cropId calls) = []"
      by (simp add: filter_empty_conv)
    with True c show ?thesis by (simp add: Let_def)
  next
    case False
    with Cons.IH[OF rest, of "fst ?r"] c show ?thesis by (simp add: Let_def)
  qed
qed

section \<open>Facts about the projection and about \<^verbatim>\<open>$set\<close>\<close>

lemma forEach_interest_collects:
  assumes "list_all (\<lambda>i. \<not> is_nullish i) es"
  shows "forEach_interest email crop es acc =
           Inr (acc @ map (projected crop) (filter (\<lambda>i. strict_eq (js_prop i ''userEmail'') email) es))"
  using assms by (induction es arbitrary: acc) (auto simp: get_prop_def)

lemma forEach_crop_collects:
  assumes "\<forall>crop \<in> set crops. \<exists>es. map_of crop ''interests'' = Some (JArr es) \<and> list_all (\<lambda>i. \<not> is_nullish i) es"
  shows "forEach_crop email crops acc =
           Inr (acc @ concat (map (\<lambda>crop. map (projected crop)
                  (filter (\<lambda>i. strict_eq (js_prop i ''userEmail'') email) (interests_of crop))) crops))"
  using assms
proof (induction crops arbitrary: acc)
  case Nil
  then show ?case by simp
next
  case (Cons crop crops)
  let ?pushed = "\<lambda>crop. map (projected crop)
                  (filter (\<lambda>i. strict_eq (js_prop i ''userEmail'') email) (interests_of crop))"
  from Cons.prems obtain es where
    es: "map_of crop ''interests'' = Some (JArr es)" "list_all (\<lambda>i. \<not> is_nullish i) es"
    by auto
  have here: "forEach_interest email crop es acc = Inr (acc @ ?pushed crop)"
    using es by (simp add: forEach_interest_collects interests_of_def)
  have "forEach_crop email crops (acc @ ?pushed crop)
      = Inr ((acc @ ?pushed crop) @ concat (map ?pushed crops))"
    using Cons.prems by (intro Cons.IH) simp
  then show ?case
    using es(1) here by (simp add: doc_prop_def)
qed

lemma concat_map_filter:
  assumes "\<forall>x \<in> set xs. \<not> P x \<longrightarrow> f x = []"
  shows "concat (map f (filter P xs)) = concat (map f xs)"
  using assms by (induction xs) auto

text \<open>The handler's test and its record, in the words of the specification.\<close>

lemma strict_eq_userEmail:
  "strict_eq (js_prop i ''userEmail'') (JStr e)
     \<longleftrightarrow> (\<exists>r. i = JObj r \<and> map_of r ''userEmail'' = Some (JStr e))"
  by (cases i) (auto simp: strict_eq_def split: option.splits)

lemma projected_is_spec_record: "projected crop (JObj r) = spec_record crop r"
proof -
  have "opt_prop (doc_prop crop ''owner'') ''ownerName'' =
          (case map_of crop ''owner'' of
             Some (JObj owner) \<Rightarrow> attribute owner ''ownerName''
           | _ \<Rightarrow> JUndefined)"
    by (auto simp: opt_prop_def doc_prop_def attribute_def split: option.splits jsval.splits)
  then show ?thesis
    by (simp add: projected_def spec_record_def attribute_def doc_prop_def)
qed

lemma pushed_is_spec:
  "map (projected crop) (filter (\<lambda>i. strict_eq (js_prop i ''userEmail'') (JStr e)) es)
     = map (spec_record crop)
         (filter (\<lambda>r. map_of r ''userEmail'' = Some (JStr e)) (records_of es))"
proof (induction es)
  case Nil
  then show ?case by simp
next
  case (Cons i es)
  show ?case
  proof (cases i)
    case (JObj r)
    with Cons show ?thesis
      by (simp add: strict_eq_userEmail projected_is_spec_record)
  qed (use Cons in \<open>simp_all add: strict_eq_userEmail\<close>)
qed

lemma strict_eq_str_elem:
  assumes "strict_eq (js_prop i ''userEmail'') (JStr e)"
  shows "elem_has ''userEmail'' (JStr e) i"
  using assms
  by (cases i) (auto simp: strict_eq_def elem_has_def field_equals_def split: option.splits)

lemma records_need_match:
  assumes "filter (\<lambda>i. strict_eq (js_prop i ''userEmail'') (JStr e)) (interests_of crop) \<noteq> []"
  shows "interests_path_matches ''userEmail'' (JStr e) crop"
proof -
  from assms obtain i where i: "i \<in> set (interests_of crop)" "strict_eq (js_prop i ''userEmail'') (JStr e)"
    by (auto simp: filter_empty_conv)
  then have "\<exists>es. map_of crop ''interests'' = Some (JArr es) \<and> i \<in> set es"
    by (cases "map_of crop ''interests''") (auto simp: interests_of_def split: jsval.splits)
  then obtain es where es: "map_of crop ''interests'' = Some (JArr es)" "i \<in> set es"
    by blast
  with strict_eq_str_elem[OF i(2)] show ?thesis
    by (auto simp: interests_path_matches_def list_ex_iff)
qed

lemma matched_is_array:
  assumes "interests_path_matches k q crop" and "interests_well_formed crop"
  shows "\<exists>es. map_of crop ''interests'' = Some (JArr es) \<and> list_all (\<lambda>i. \<not> is_nullish i) es"
  using assms
  by (auto simp: interests_path_matches_def interests_well_formed_def split: option.splits jsval.splits)

lemma listMyInterests_pushes:
  assumes e: "e \<noteq> []" and wf: "\<forall>crop \<in> set s. interests_well_formed crop"
  shows "listMyInterests pf s (JStr e) =
           Send (JArr (concat (map (\<lambda>crop. map (projected crop)
                  (filter (\<lambda>i. strict_eq (js_prop i ''userEmail'') (JStr e)) (interests_of crop))) s)))"
proof -
  let ?P = "userEmail_filter pf (JStr e)"
  let ?pushed = "\<lambda>crop. map (projected crop)
                  (filter (\<lambda>i. strict_eq (js_prop i ''userEmail'') (JStr e)) (interests_of crop))"
  have P: "?P = interests_path_matches ''userEmail'' (JStr e)"
    by (simp add: userEmail_filter_def fun_eq_iff)
  have "\<forall>crop \<in> set (filter ?P s).
          \<exists>es. map_of crop ''interests'' = Some (JArr es) \<and> list_all (\<lambda>i. \<not> is_nullish i) es"
    using wf matched_is_array unfolding P by auto
  from forEach_crop_collects[OF this, of "JStr e" "[]"]
  have "forEach_crop (JStr e) (filter ?P s) [] = Inr (concat (map ?pushed (filter ?P s)))"
    by simp
  moreover have "concat (map ?pushed (filter ?P s)) = concat (map ?pushed s)"
    unfolding P by (rule concat_map_filter) (use records_need_match in auto)
  ultimately show ?thesis
    using e by (simp add: listMyInterests_def)
qed

lemma no_interests_no_records:
  assumes "map_of crop ''interests'' = None \<or> map_of crop ''interests'' = Some (JArr [])"
  shows "interests_well_formed crop \<and> crop_records e crop = []"
  using assms
  by (auto simp: interests_well_formed_def crop_records_def interests_by_def interests_of_def)

lemma apply_set_result:
  assumes "''_id'' \<notin> fst ` set fs"
  shows "\<exists>d'. apply_set fs d = Inr d' \<and> map_of d' = map_of d ++ map_of (rev fs)"
  using assms
proof (induction fs arbitrary: d)
  case Nil
  then show ?case by simp
next
  case (Cons kv fs)
  obtain k v where kv: "kv = (k, v)" by (cases kv) auto
  with Cons.prems have k: "k \<noteq> ''_id''" and rest: "''_id'' \<notin> fst ` set fs" by auto
  from Cons.IH[OF rest, of "AList.update k v d"] obtain d' where
    d': "apply_set fs (AList.update k v d) = Inr d'"
    "map_of d' = map_of (AList.update k v d) ++ map_of (rev fs)" by blast
  have "map_of (AList.update k v d) ++ map_of (rev fs) = map_of d ++ map_of (rev ((k, v) # fs))"
    by (simp add: update_conv' fun_eq_iff map_add_def split: option.splits)
  with d' k kv show ?case by simp
qed

lemma apply_set_fields:
  assumes "''_id'' \<notin> fst ` set fs" and "distinct (map fst fs)"
  shows "\<exists>d'. apply_set fs d = Inr d'
           \<and> (\<forall>k. map_of d' k = (case map_of fs k of Some v \<Rightarrow> Some v | None \<Rightarrow> map_of d k))"
proof -
  from apply_set_result[OF assms(1), of d] obtain d' where
    d': "apply_set fs d = Inr d'" "map_of d' = map_of d ++ map_of (rev fs)" by blast
  have "map_of (rev fs) = map_of fs" using assms(2) by (rule map_of_rev_distinct)
  with d' show ?thesis by (auto simp: map_add_def split: option.splits)
qed

lemma set_replaces_nothing_else:
  assumes oid: "new_ObjectId crop_id = Some oid" and crop: "findOne s (id_matches oid) = Some crop"
    and plain: "list_all (\<lambda>(k, v). plain_key k) fs"
    and noid: "''_id'' \<notin> fst ` set fs" and dist: "distinct (map fst fs)"
  shows "\<exists>s' crop' m n.
           putCrop pf s crop_id (JObj fs) = (s', Send (JObj [(''success'', JBool True)]))
         \<and> patchCrop pf s crop_id (JObj fs) = (s', Send (UpdateResult m n))
         \<and> findOne s' (id_matches oid) = Some crop'
         \<and> (\<forall>k. map_of crop' k = (case map_of fs k of Some v \<Rightarrow> Some v | None \<Rightarrow> map_of crop k))"
proof -
  from apply_set_fields[OF noid dist, of crop] obtain crop' where
    set: "apply_set fs crop = Inr crop'"
    and fields: "\<forall>k. map_of crop' k = (case map_of fs k of Some v \<Rightarrow> Some v | None \<Rightarrow> map_of crop k)"
    by blast
  have "id_matches oid crop"
    using findOne_split[of s "id_matches oid" crop, OF crop] by blast
  moreover have "map_of fs ''_id'' = None" using noid by (simp add: map_of_eq_None_iff)
  ultimately have "id_matches oid crop'" using fields by (simp add: id_matches_def)
  from updateOne_findOne[of s "id_matches oid" crop "apply_set fs" crop', OF crop set this]
  obtain s' where upd: "updateOne (id_matches oid) (apply_set fs) s = Inr (s', 1, if crop' = crop then 0 else 1)"
    and found: "findOne s' (id_matches oid) = Some crop'" by blast
  have "update_set pf oid (JObj fs) s = Inr (s', 1, if crop' = crop then 0 else 1)"
    using plain upd by (simp add: update_set_def)
  then have "putCrop pf s crop_id (JObj fs) = (s', Send (JObj [(''success'', JBool True)]))"
    and "patchCrop pf s crop_id (JObj fs) = (s', Send (UpdateResult 1 (if crop' = crop then 0 else 1)))"
    using oid by (simp_all add: putCrop_def patchCrop_def)
  with found fields show ?thesis by blast
qed

section \<open>Submissions that overlap\<close>

text \<open>
  A request that nothing interrupts is \<open>submitInterest\<close>: the schedule that runs it twice
  takes it through its read and its write.
\<close>

lemma run_alone:
  "run_schedule pf [0, 0] (s, [Arrived cropId body interestId now]) =
     (case submitInterest pf s cropId body interestId now of (s', r) \<Rightarrow> (s', [Responded r]))"
  by (simp add: submitInterest_def split: sum.splits prod.splits)

text \<open>
  Claim C1: the existence check and the append of \<open>submitInterest\<close> are one atomic
  conditional operation, so that two concurrent identical submissions leave exactly one
  stored Interest and the loser gets the conflict response.

  The code reads with \<^verbatim>\<open>findOne\<close>, checks in the handler, and then writes with an
  \<^verbatim>\<open>updateOne\<close> whose filter is the crop's \<^verbatim>\<open>_id\<close> alone. Two submissions of \<^verbatim>\<open>b@x.com\<close>
  for crop \<open>C\<close> whose reads both come before either write both pass the check
  "already sent": the crop ends with two interests of \<^verbatim>\<open>b@x.com\<close> and both callers
  get the new interest back. Served one after the other, the same two requests leave
  one interest, and the second gets status 400 "already sent".
\<close>

theorem submit_race_stores_duplicate:
  "run_schedule example_platform [0, 1, 0, 1]
     ([crop_C], [Arrived id_C (interest_body ''b@x.com'' ''B'' (JNum 2)) id_I 0,
                 Arrived id_C (interest_body ''b@x.com'' ''B'' (JNum 2)) id_J 0])
   = ([crop_with [stored_interest id_I ''b@x.com'' ''B'' (JNum 2) ''pending'',
                  stored_interest id_J ''b@x.com'' ''B'' (JNum 2) ''pending'']],
      [Responded (Send (sent_interest id_I ''b@x.com'' ''B'' (JNum 2))),
       Responded (Send (sent_interest id_J ''b@x.com'' ''B'' (JNum 2)))])
   \<and> run_schedule example_platform [0, 0, 1, 1]
     ([crop_C], [Arrived id_C (interest_body ''b@x.com'' ''B'' (JNum 2)) id_I 0,
                 Arrived id_C (interest_body ''b@x.com'' ''B'' (JNum 2)) id_J 0])
   = ([crop_with [stored_interest id_I ''b@x.com'' ''B'' (JNum 2) ''pending'']],
      [Responded (Send (sent_interest id_I ''b@x.com'' ''B'' (JNum 2))),
       Responded (SendStatus 400 AlreadySentInterest)])"
  by (simp add: submit_defs js_defs store_defs example_defs)

section \<open>Identifiers that are not ObjectIds\<close>

text \<open>
  Claim C8: \<open>submitInterest\<close> with a malformed \<open>cropId\<close> returns the validation error, not
  "not found" and not the internal error.

  The handler never asks \<^verbatim>\<open>ObjectId.isValid\<close>: \<^verbatim>\<open>new ObjectId(cropId)\<close> throws inside the
  \<^verbatim>\<open>try\<close>, and the \<^verbatim>\<open>catch\<close> answers 500 "Failed to submit interest". The handler of
  \<^verbatim>\<open>GET /api/crops/:id\<close> does ask, and answers 400 "Invalid crop ID" for the same string.
\<close>

theorem submit_malformed_cropId_is_500:
  "submitInterest example_platform [crop_C] ''not-an-id''
     (interest_body ''b@x.com'' ''B'' (JNum 2)) id_I 0
   = ([crop_C], SendStatus 500 FailedToSubmitInterest)
   \<and> getCrop [crop_C] ''not-an-id'' = SendStatus 400 InvalidCropId"
  by (simp add: submit_defs js_defs example_defs getCrop_def)

section \<open>Status updates\<close>

text \<open>
  Claim C4: \<open>updateInterestStatus\<close> returns "not found" when the crop, or the interest
  within the crop, does not exist, and does not report success then.

  The handler does not read the result of \<^verbatim>\<open>updateOne\<close>. Whenever the identifiers are
  well formed and no document matches the filter (no crop has the \<^verbatim>\<open>_id\<close>, or the crop has
  no interest with the \<^verbatim>\<open>_id\<close>), it leaves the store as it is and answers
  \<^verbatim>\<open>{ success: true }\<close>.
\<close>

theorem update_status_missing_target_reports_success:
  assumes ids: "new_ObjectId cropId = Some c" "new_ObjectId interestId = Some i"
    and body: "\<not> is_nullish body"
    and missing: "findOne s (\<lambda>d. id_matches c d \<and> interests_path_matches ''_id'' (JObjectId i) d) = None"
  shows "updateInterestStatus s cropId interestId body = (s, Send (JObj [(''success'', JBool True)]))"
proof -
  have valid: "ObjectId_isValid cropId" "ObjectId_isValid interestId"
    using ids by (auto simp: new_ObjectId_def split: if_splits)
  have "updateOne (\<lambda>d. id_matches c d \<and> interests_path_matches ''_id'' (JObjectId i) d)
          (set_interest_status (JObjectId i) (bson_value (js_prop body ''status''))) s = Inr (s, 0, 0)"
    using missing unfolding findOne_def by (rule updateOne_no_match)
  then show ?thesis
    using ids valid body by (simp add: updateInterestStatus_def get_prop_def)
qed

text \<open>
  First no crop exists at all, then the crop exists and has no interest. The handler of
  \<^verbatim>\<open>GET /api/crops/:id\<close> answers 404 "Crop not found" for the missing crop.
\<close>

theorem update_status_missing_target_witness:
  "updateInterestStatus [] id_C id_I (JObj [(''status'', JStr ''accepted'')])
   = ([], Send (JObj [(''success'', JBool True)]))
   \<and> updateInterestStatus [crop_C] id_C id_I (JObj [(''status'', JStr ''accepted'')])
   = ([crop_C], Send (JObj [(''success'', JBool True)]))
   \<and> getCrop [] id_C = SendStatus 404 CropNotFound"
  using update_status_missing_target_reports_success[of id_C id_C id_I id_I
      "JObj [(''status'', JStr ''accepted'')]" "[]"]
    update_status_missing_target_reports_success[of id_C id_C id_I id_I
      "JObj [(''status'', JStr ''accepted'')]" "[crop_C]"]
  by (simp add: getCrop_def js_defs store_defs example_defs)

text \<open>
  Claim C5: \<open>updateInterestStatus\<close> accepts only the requested status \<^verbatim>\<open>accepted\<close> or
  \<^verbatim>\<open>rejected\<close>; any other value gets the validation error and is not written.

  The handler passes \<^verbatim>\<open>status\<close> to \<^verbatim>\<open>$set\<close> as it came (its comment reads
  "accepted / rejected"): the string \<^verbatim>\<open>banana\<close> is stored as the interest's status and
  the answer is \<^verbatim>\<open>{ success: true }\<close>.
\<close>

theorem update_status_writes_any_value:
  "updateInterestStatus [crop_with [stored_interest id_I ''b@x.com'' ''B'' (JNum 2) ''pending'']]
     id_C id_I (JObj [(''status'', JStr ''banana'')])
   = ([crop_with [stored_interest id_I ''b@x.com'' ''B'' (JNum 2) ''banana'']],
      Send (JObj [(''success'', JBool True)]))"
  by (simp add: updateInterestStatus_def js_defs store_defs example_defs)

text \<open>Read back from the store, the statuses of the crop's interests are \<^verbatim>\<open>banana\<close> alone.\<close>

theorem stored_status_is_the_requested_value:
  "map (\<lambda>i. js_prop i ''status'')
     (concat (map interests_of
        (fst (updateInterestStatus
                [crop_with [stored_interest id_I ''b@x.com'' ''B'' (JNum 2) ''pending'']]
                id_C id_I (JObj [(''status'', JStr ''banana'')])))))
   = [JStr ''banana'']"
  using update_status_writes_any_value
  by (simp add: interests_of_def example_defs)

section \<open>Status transitions\<close>

text \<open>
  Claim C3 says that a status moves only from \<^verbatim>\<open>pending\<close> to \<^verbatim>\<open>accepted\<close> or \<^verbatim>\<open>rejected\<close>,
  and that a further call on an accepted or rejected interest gets the conflict response
  and leaves the status as it is. The filter and the update of the handler never read the
  current status: an accepted interest becomes rejected, and the answer is
  \<^verbatim>\<open>{ success: true }\<close>.
\<close>

theorem accepted_interest_is_overwritten:
  "updateInterestStatus [crop_with [stored_interest id_I ''b@x.com'' ''B'' (JNum 2) ''accepted'']]
     id_C id_I (JObj [(''status'', JStr ''rejected'')])
   = ([crop_with [stored_interest id_I ''b@x.com'' ''B'' (JNum 2) ''rejected'']],
      Send (JObj [(''success'', JBool True)]))"
  by (simp add: updateInterestStatus_def js_defs store_defs example_defs)

text \<open>
  Claim C3, as amended: with well-formed identifiers and a requested status \<^verbatim>\<open>accepted\<close>
  or \<^verbatim>\<open>rejected\<close>, \<open>updateInterestStatus\<close> sets the status of the first interest of the
  crop that has the given \<^verbatim>\<open>_id\<close> to the requested status, whatever the status was
  (\<^verbatim>\<open>pending\<close>, \<^verbatim>\<open>accepted\<close> or \<^verbatim>\<open>rejected\<close>), answers \<^verbatim>\<open>{ success: true }\<close>, and changes
  nothing else: not the interests before or after it, not the interest's other fields,
  not the crop's other fields, not another document. It has no conflict response.
\<close>

theorem update_status_overwrites:
  assumes ids: "new_ObjectId cropId = Some c" "new_ObjectId interestId = Some i"
    and requested: "js_prop body ''status'' = JStr status"
      "status = ''accepted'' \<or> status = ''rejected''"
    and pre: "\<forall>d \<in> set pre. \<not> (id_matches c d \<and> interests_path_matches ''_id'' (JObjectId i) d)"
    and crop: "id_matches c crop" "map_of crop ''interests'' = Some (JArr (es1 @ JObj fs # es2))"
    and es1: "\<forall>e \<in> set es1. \<not> elem_has ''_id'' (JObjectId i) e"
    and fs: "elem_has ''_id'' (JObjectId i) (JObj fs)"
  shows "updateInterestStatus (pre @ crop # post) cropId interestId body =
           (pre @ AList.update ''interests''
                    (JArr (es1 @ JObj (AList.update ''status'' (JStr status) fs) # es2))
                    crop # post,
            Send (JObj [(''success'', JBool True)]))"
proof -
  let ?q = "\<lambda>d. id_matches c d \<and> interests_path_matches ''_id'' (JObjectId i) d"
  have body: "\<not> is_nullish body"
    using requested(1) nullish_props[of body "''status''"] by auto
  have v: "bson_value (js_prop body ''status'') = JStr status"
    using requested(1) by (simp add: bson_value_def)
  have valid: "ObjectId_isValid cropId" "ObjectId_isValid interestId"
    using ids by (auto simp: new_ObjectId_def split: if_splits)
  have q: "?q crop"
    using crop fs by (simp add: interests_path_matches_def list_ex_at)
  have u: "set_interest_status (JObjectId i) (JStr status) crop =
             Inr (AList.update ''interests''
                    (JArr (es1 @ JObj (AList.update ''status'' (JStr status) fs) # es2)) crop)"
    using crop es1 fs by (simp add: set_interest_status_def set_first_at)
  from updateOne_at[of pre ?q crop "set_interest_status (JObjectId i) (JStr status)", OF pre q u]
  show ?thesis
    using ids valid body v by (simp add: updateInterestStatus_def get_prop_def)
qed

text \<open>A rejected interest, the second of its crop, becomes accepted.\<close>

theorem update_status_overwrites_witness:
  "updateInterestStatus
     [crop_with [stored_interest id_I ''b@x.com'' ''B'' (JNum 2) ''pending'',
                 stored_interest id_J ''c@x.com'' ''C'' (JNum 1) ''rejected'']]
     id_C id_J (JObj [(''status'', JStr ''accepted'')])
   = ([crop_with [stored_interest id_I ''b@x.com'' ''B'' (JNum 2) ''pending'',
                  stored_interest id_J ''c@x.com'' ''C'' (JNum 1) ''accepted'']],
      Send (JObj [(''success'', JBool True)]))"
  using update_status_overwrites[where cropId = id_C and c = id_C and interestId = id_J
      and i = id_J and body = "JObj [(''status'', JStr ''accepted'')]"
      and status = "''accepted''" and pre = "[]" and post = "[]"
      and crop = "crop_with [stored_interest id_I ''b@x.com'' ''B'' (JNum 2) ''pending'',
                  stored_interest id_J ''c@x.com'' ''C'' (JNum 1) ''rejected'']"
      and ?es1.0 = "[stored_interest id_I ''b@x.com'' ''B'' (JNum 2) ''pending'']"
      and fs = "[(''_id'', JObjectId id_J), (''cropId'', JStr id_C),
        (''userEmail'', JStr ''c@x.com''), (''userName'', JStr ''C''),
        (''quantity'', JNum 1), (''message'', JNull),
        (''status'', JStr ''rejected''), (''createdAt'', JDate 0)]"
      and ?es2.0 = "[]"]
  by (simp add: js_defs store_defs example_defs)

section \<open>The owner's own submission\<close>

text \<open>
  Claim C6 says that a submission whose \<^verbatim>\<open>userEmail\<close> is the crop's \<^verbatim>\<open>owner.ownerEmail\<close>
  always gets the forbidden response. The checks of the body come first in the handler:
  the owner of crop \<open>C\<close> who asks for quantity 0 gets 400 "Quantity must be at least 1".
\<close>

theorem owner_with_quantity_0_is_400:
  "submitInterest example_platform [crop_C] id_C (interest_body ''a@x.com'' ''A'' (JNum 0)) id_I 0
   = ([crop_C], SendStatus 400 QuantityAtLeast1)"
  by (simp add: submit_defs js_defs store_defs example_defs)

text \<open>
  Claim C6, as amended: for every existing crop, a submission whose \<^verbatim>\<open>userEmail\<close> is
  (\<^verbatim>\<open>===\<close>) the crop's \<^verbatim>\<open>owner.ownerEmail\<close> stores nothing and never succeeds. The
  handler's checks of the body come first, in this order: no body gives 500; an empty
  \<^verbatim>\<open>userEmail\<close> or \<^verbatim>\<open>userName\<close> gives 400 "User info required"; a quantity that is falsy
  or less than 1 gives 400 "Quantity must be at least 1"; a quantity whose comparison
  with 1 throws gives 500. In every other case the answer is 403 "Owner cannot send
  interest".
\<close>

theorem owner_submission_refused:
  assumes crop: "new_ObjectId cropId = Some oid" "findOne s (id_matches oid) = Some crop"
    and owner: "strict_eq (opt_prop (doc_prop crop ''owner'') ''ownerEmail'') (js_prop body ''userEmail'')"
  shows "submitInterest pf s cropId body interestId now =
           (s, (if is_nullish body then SendStatus 500 FailedToSubmitInterest
                else if \<not> truthy (js_prop body ''userEmail'') \<or> \<not> truthy (js_prop body ''userName'')
                then SendStatus 400 UserInfoRequired
                else if \<not> truthy (js_prop body ''quantity'') then SendStatus 400 QuantityAtLeast1
                else (case quantity_lt_1 pf (js_prop body ''quantity'') of
                        Inl e \<Rightarrow> SendStatus 500 FailedToSubmitInterest
                      | Inr True \<Rightarrow> SendStatus 400 QuantityAtLeast1
                      | Inr False \<Rightarrow> SendStatus 403 OwnerCannotSendInterest)))
       \<and> \<not> is_Send (snd (submitInterest pf s cropId body interestId now))"
proof -
  have "submit_read pf s cropId body interestId now =
           Inl (if is_nullish body then SendStatus 500 FailedToSubmitInterest
                else if \<not> truthy (js_prop body ''userEmail'') \<or> \<not> truthy (js_prop body ''userName'')
                then SendStatus 400 UserInfoRequired
                else if \<not> truthy (js_prop body ''quantity'') then SendStatus 400 QuantityAtLeast1
                else (case quantity_lt_1 pf (js_prop body ''quantity'') of
                        Inl e \<Rightarrow> SendStatus 500 FailedToSubmitInterest
                      | Inr True \<Rightarrow> SendStatus 400 QuantityAtLeast1
                      | Inr False \<Rightarrow> SendStatus 403 OwnerCannotSendInterest))"
    using crop owner
    by (simp add: submit_read_def Let_def split: sum.splits bool.splits)
  then have r: "submitInterest pf s cropId body interestId now =
           (s, (if is_nullish body then SendStatus 500 FailedToSubmitInterest
                else if \<not> truthy (js_prop body ''userEmail'') \<or> \<not> truthy (js_prop body ''userName'')
                then SendStatus 400 UserInfoRequired
                else if \<not> truthy (js_prop body ''quantity'') then SendStatus 400 QuantityAtLeast1
                else (case quantity_lt_1 pf (js_prop body ''quantity'') of
                        Inl e \<Rightarrow> SendStatus 500 FailedToSubmitInterest
                      | Inr True \<Rightarrow> SendStatus 400 QuantityAtLeast1
                      | Inr False \<Rightarrow> SendStatus 403 OwnerCannotSendInterest)))"
    by (simp add: submitInterest_def)
  have "\<not> is_Send (if is_nullish body then SendStatus 500 FailedToSubmitInterest
                   else if \<not> truthy (js_prop body ''userEmail'') \<or> \<not> truthy (js_prop body ''userName'')
                   then SendStatus 400 UserInfoRequired
                   else if \<not> truthy (js_prop body ''quantity'') then SendStatus 400 QuantityAtLeast1
                   else (case quantity_lt_1 pf (js_prop body ''quantity'') of
                           Inl e \<Rightarrow> SendStatus 500 FailedToSubmitInterest
                         | Inr True \<Rightarrow> SendStatus 400 QuantityAtLeast1
                         | Inr False \<Rightarrow> SendStatus 403 OwnerCannotSendInterest))"
    by (simp split: sum.splits bool.splits)
  with r show ?thesis by simp
qed

text \<open>
  The owner of crop \<open>C\<close> asks for 5, then with a quantity that cannot be converted, then
  without a name.
\<close>

theorem owner_submission_refused_witness:
  "submitInterest example_platform [crop_C] id_C (interest_body ''a@x.com'' ''A'' (JNum 5)) id_I 0
     = ([crop_C], SendStatus 403 OwnerCannotSendInterest)
   \<and> submitInterest example_platform [crop_C] id_C (interest_body ''a@x.com'' ''A'' unconvertible) id_I 0
     = ([crop_C], SendStatus 500 FailedToSubmitInterest)
   \<and> submitInterest example_platform [crop_C] id_C (interest_body ''a@x.com'' [] (JNum 5)) id_I 0
     = ([crop_C], SendStatus 400 UserInfoRequired)"
  using owner_submission_refused[of id_C id_C "[crop_C]" crop_C
      "interest_body ''a@x.com'' ''A'' (JNum 5)" example_platform id_I 0]
    owner_submission_refused[of id_C id_C "[crop_C]" crop_C
      "interest_body ''a@x.com'' ''A'' unconvertible" example_platform id_I 0]
    owner_submission_refused[of id_C id_C "[crop_C]" crop_C
      "interest_body ''a@x.com'' [] (JNum 5)" example_platform id_I 0]
  by (simp add: js_defs store_defs example_defs)

section \<open>The quantity of a submission\<close>

text \<open>
  Claim C7 says that \<open>submitInterest\<close> requires the quantity to be a positive integer. The
  handler tests \<^verbatim>\<open>!quantity || quantity < 1\<close> and nothing else: the quantity 1.5 passes,
  and the interest is stored with it.
\<close>

theorem fractional_quantity_is_stored:
  "submitInterest example_platform [crop_C] id_C (interest_body ''b@x.com'' ''B'' (JNum (3 / 2))) id_I 0
   = ([crop_with [stored_interest id_I ''b@x.com'' ''B'' (JNum (3 / 2)) ''pending'']],
      Send (sent_interest id_I ''b@x.com'' ''B'' (JNum (3 / 2))))"
  by (simp add: submit_defs js_defs store_defs example_defs)

text \<open>
  Claim C7, as amended: with \<^verbatim>\<open>userEmail\<close> and \<^verbatim>\<open>userName\<close> present, a quantity that is
  absent, \<^verbatim>\<open>null\<close>, or a number below 1 (zero and the negative numbers among them) gets
  400 "Quantity must be at least 1" and the store is not touched; a quantity that is a
  number from 1 on, an integer or not, with otherwise valid inputs (the crop exists, the
  sender is not its owner, the crop's \<^verbatim>\<open>interests\<close> is absent or an array in which the
  search finds no interest of the sender) succeeds: the answer is the new interest,
  \<^verbatim>\<open>pending\<close>, and the crop's interests are the old ones followed by it.
\<close>

theorem quantity_check:
  assumes body: "\<not> is_nullish body"
    and user: "truthy (js_prop body ''userEmail'')" "truthy (js_prop body ''userName'')"
  shows "(js_prop body ''quantity'' = JUndefined \<or> js_prop body ''quantity'' = JNull
            \<or> (\<exists>n. js_prop body ''quantity'' = JNum n \<and> n < 1)
          \<longrightarrow> submitInterest pf s cropId body interestId now = (s, SendStatus 400 QuantityAtLeast1))
       \<and> (\<forall>n oid crop.
             js_prop body ''quantity'' = JNum n \<and> 1 \<le> n
             \<and> new_ObjectId cropId = Some oid \<and> findOne s (id_matches oid) = Some crop
             \<and> \<not> strict_eq (opt_prop (doc_prop crop ''owner'') ''ownerEmail'') (js_prop body ''userEmail'')
             \<and> (map_of crop ''interests'' = None \<or> (\<exists>es. map_of crop ''interests'' = Some (JArr es)))
             \<and> find_interest (js_prop body ''userEmail'') (interests_of crop) = Inr JUndefined
           \<longrightarrow> (\<exists>s' sent stored.
                  submitInterest pf s cropId body interestId now = (s', Send sent)
                  \<and> js_prop sent ''quantity'' = JNum n \<and> js_prop sent ''status'' = JStr ''pending''
                  \<and> findOne s' (id_matches oid)
                      = Some (AList.update ''interests'' (JArr (interests_of crop @ [stored])) crop)
                  \<and> js_prop stored ''quantity'' = JNum n
                  \<and> js_prop stored ''status'' = JStr ''pending''))"
proof (intro conjI impI allI)
  assume "js_prop body ''quantity'' = JUndefined \<or> js_prop body ''quantity'' = JNull
            \<or> (\<exists>n. js_prop body ''quantity'' = JNum n \<and> n < 1)"
  from quantity_rejected[OF body this, of pf s cropId interestId now] user
  show "submitInterest pf s cropId body interestId now = (s, SendStatus 400 QuantityAtLeast1)"
    by simp
next
  fix n oid crop
  let ?ni = "newInterest interestId cropId (js_prop body ''userEmail'') (js_prop body ''userName'')
                    (js_prop body ''quantity'') (js_prop body ''message'') now"
  assume a: "js_prop body ''quantity'' = JNum n \<and> 1 \<le> n
             \<and> new_ObjectId cropId = Some oid \<and> findOne s (id_matches oid) = Some crop
             \<and> \<not> strict_eq (opt_prop (doc_prop crop ''owner'') ''ownerEmail'') (js_prop body ''userEmail'')
             \<and> (map_of crop ''interests'' = None \<or> (\<exists>es. map_of crop ''interests'' = Some (JArr es)))
             \<and> find_interest (js_prop body ''userEmail'') (interests_of crop) = Inr JUndefined"
  then have q: "truthy (js_prop body ''quantity'')" "quantity_lt_1 pf (js_prop body ''quantity'') = Inr False"
    by (auto simp: quantity_lt_1_def)
  from a have oid: "new_ObjectId cropId = Some oid" and crop: "findOne s (id_matches oid) = Some crop"
    and owner: "\<not> strict_eq (opt_prop (doc_prop crop ''owner'') ''ownerEmail'') (js_prop body ''userEmail'')"
    and arr: "map_of crop ''interests'' = None \<or> (\<exists>es. map_of crop ''interests'' = Some (JArr es))"
    and none: "find_interest (js_prop body ''userEmail'') (interests_of crop) = Inr JUndefined"
    by simp_all
  from submit_success[of body pf cropId oid s crop ?ni interestId now,
      OF body user q oid crop owner arr none refl]
  obtain s' where s': "submitInterest pf s cropId body interestId now = (s', Send (JObj ?ni))"
    "findOne s' (id_matches oid)
       = Some (AList.update ''interests'' (JArr (interests_of crop @ [JObj (to_bson ?ni)])) crop)"
    by blast
  have "js_prop (JObj ?ni) ''quantity'' = JNum n" "js_prop (JObj ?ni) ''status'' = JStr ''pending''"
    "js_prop (JObj (to_bson ?ni)) ''quantity'' = JNum n"
    "js_prop (JObj (to_bson ?ni)) ''status'' = JStr ''pending''"
    using a by (simp_all add: newInterest_def to_bson_def bson_value_def)
  with s' show "\<exists>s' sent stored.
                  submitInterest pf s cropId body interestId now = (s', Send sent)
                  \<and> js_prop sent ''quantity'' = JNum n \<and> js_prop sent ''status'' = JStr ''pending''
                  \<and> findOne s' (id_matches oid)
                      = Some (AList.update ''interests'' (JArr (interests_of crop @ [stored])) crop)
                  \<and> js_prop stored ''quantity'' = JNum n
                  \<and> js_prop stored ''status'' = JStr ''pending''"
    by blast
qed

theorem quantity_check_witness:
  "submitInterest example_platform [crop_C] id_C (interest_body ''b@x.com'' ''B'' (JNum 0)) id_I 0
     = ([crop_C], SendStatus 400 QuantityAtLeast1)
   \<and> submitInterest example_platform [crop_C] id_C (interest_body ''b@x.com'' ''B'' (JNum (- 4))) id_I 0
     = ([crop_C], SendStatus 400 QuantityAtLeast1)
   \<and> submitInterest example_platform [crop_C] id_C
        (JObj [(''userEmail'', JStr ''b@x.com''), (''userName'', JStr ''B'')]) id_I 0
     = ([crop_C], SendStatus 400 QuantityAtLeast1)
   \<and> (\<exists>s' sent stored.
         submitInterest example_platform [crop_C] id_C (interest_body ''b@x.com'' ''B'' (JNum 1)) id_I 0
           = (s', Send sent)
         \<and> js_prop sent ''status'' = JStr ''pending''
         \<and> findOne s' (id_matches id_C) = Some (crop_with [stored])
         \<and> js_prop stored ''quantity'' = JNum 1 \<and> js_prop stored ''status'' = JStr ''pending'')"
proof -
  note zero = quantity_check[of "interest_body ''b@x.com'' ''B'' (JNum 0)" example_platform
      "[crop_C]" id_C id_I 0, THEN conjunct1]
  note neg = quantity_check[of "interest_body ''b@x.com'' ''B'' (JNum (- 4))" example_platform
      "[crop_C]" id_C id_I 0, THEN conjunct1]
  note absent = quantity_check[of "JObj [(''userEmail'', JStr ''b@x.com''), (''userName'', JStr ''B'')]"
      example_platform "[crop_C]" id_C id_I 0, THEN conjunct1]
  note one = quantity_check[of "interest_body ''b@x.com'' ''B'' (JNum 1)" example_platform
      "[crop_C]" id_C id_I 0, THEN conjunct2, rule_format, of 1 id_C crop_C]
  have 1: "submitInterest example_platform [crop_C] id_C (interest_body ''b@x.com'' ''B'' (JNum 0)) id_I 0
     = ([crop_C], SendStatus 400 QuantityAtLeast1)"
    using zero by (simp add: interest_body_def)
  have 2: "submitInterest example_platform [crop_C] id_C (interest_body ''b@x.com'' ''B'' (JNum (- 4))) id_I 0
     = ([crop_C], SendStatus 400 QuantityAtLeast1)"
    using neg by (simp add: interest_body_def)
  have 3: "submitInterest example_platform [crop_C] id_C
        (JObj [(''userEmail'', JStr ''b@x.com''), (''userName'', JStr ''B'')]) id_I 0
     = ([crop_C], SendStatus 400 QuantityAtLeast1)"
    using absent by simp
  have "\<exists>s' sent stored.
         submitInterest example_platform [crop_C] id_C (interest_body ''b@x.com'' ''B'' (JNum 1)) id_I 0
           = (s', Send sent)
         \<and> js_prop sent ''quantity'' = JNum 1 \<and> js_prop sent ''status'' = JStr ''pending''
         \<and> findOne s' (id_matches id_C)
             = Some (AList.update ''interests'' (JArr (interests_of crop_C @ [stored])) crop_C)
         \<and> js_prop stored ''quantity'' = JNum 1 \<and> js_prop stored ''status'' = JStr ''pending''"
    using one by (simp add: js_defs store_defs example_defs interests_of_def)
  moreover have "AList.update ''interests'' (JArr (interests_of crop_C @ [stored])) crop_C = crop_with [stored]"
    for stored by (simp add: example_defs interests_of_def)
  ultimately show ?thesis using 1 2 3 by auto
qed

section \<open>Submitting twice\<close>

text \<open>
  Claim C2 says that, of the calls of \<open>submitInterest\<close> with one \<^verbatim>\<open>(cropId, userEmail)\<close>,
  at most one stores an interest and every later one gets the conflict response (status
  400 "already sent" in this code). The later call is validated first: after the first
  submission of \<^verbatim>\<open>b@x.com\<close>, the second gets "already sent", and the third, whose
  quantity is 0, gets 400 "Quantity must be at least 1".
\<close>

theorem resubmission_with_quantity_0:
  "submit_all example_platform [crop_C] id_C three_calls
   = [([crop_with [stored_interest id_I ''b@x.com'' ''B'' (JNum 2) ''pending'']],
        Send (sent_interest id_I ''b@x.com'' ''B'' (JNum 2))),
      ([crop_with [stored_interest id_I ''b@x.com'' ''B'' (JNum 2) ''pending'']],
        SendStatus 400 AlreadySentInterest),
      ([crop_with [stored_interest id_I ''b@x.com'' ''B'' (JNum 2) ''pending'']],
        SendStatus 400 QuantityAtLeast1)]"
  by (simp add: three_calls_def submit_defs js_defs store_defs example_defs)

text \<open>
  Claim C2, as amended: for every sequence of calls of \<open>submitInterest\<close> for one \<open>cropId\<close>
  with one \<^verbatim>\<open>userEmail\<close> that is a string (or another primitive value), on any store, at
  most one call succeeds; a call that does not succeed leaves the store as it found it;
  and every call after the successful one leaves the store unchanged and fails, with the
  response that the handler's order of checks gives: 400 "User info required" when its
  \<^verbatim>\<open>userName\<close> is empty; 400 "Quantity must be at least 1" when its quantity is falsy or
  less than 1; 500 when the comparison of its quantity with 1 throws; and 400 "already
  sent" in every other case.
\<close>

theorem resubmission_refused:
  assumes prim: "is_primitive userEmail"
    and same: "\<forall>c \<in> set calls. js_prop (fst c) ''userEmail'' = userEmail"
  shows "length (filter (\<lambda>r. is_Send (snd r)) (submit_all pf s cropId calls)) \<le> 1
       \<and> (\<forall>k. k < length calls \<and> \<not> is_Send (snd (submit_all pf s cropId calls ! k))
             \<longrightarrow> fst (submit_all pf s cropId calls ! k)
                   = (if k = 0 then s else fst (submit_all pf s cropId calls ! (k - 1))))
       \<and> (\<forall>j k. j < k \<and> k < length calls \<and> is_Send (snd (submit_all pf s cropId calls ! j))
             \<longrightarrow> fst (submit_all pf s cropId calls ! k) = fst (submit_all pf s cropId calls ! j)
                 \<and> \<not> is_Send (snd (submit_all pf s cropId calls ! k))
                 \<and> snd (submit_all pf s cropId calls ! k) =
                     (if \<not> truthy (js_prop (fst (calls ! k)) ''userName'') then SendStatus 400 UserInfoRequired
                      else if \<not> truthy (js_prop (fst (calls ! k)) ''quantity'') then SendStatus 400 QuantityAtLeast1
                      else (case quantity_lt_1 pf (js_prop (fst (calls ! k)) ''quantity'') of
                              Inl e \<Rightarrow> SendStatus 500 FailedToSubmitInterest
                            | Inr True \<Rightarrow> SendStatus 400 QuantityAtLeast1
                            | Inr False \<Rightarrow> SendStatus 400 AlreadySentInterest)))"
proof (intro conjI allI impI)
  show "length (filter (\<lambda>r. is_Send (snd r)) (submit_all pf s cropId calls)) \<le> 1"
    by (rule at_most_one_sent[OF prim same])
next
  fix k
  assume "k < length calls \<and> \<not> is_Send (snd (submit_all pf s cropId calls ! k))"
  then show "fst (submit_all pf s cropId calls ! k)
                   = (if k = 0 then s else fst (submit_all pf s cropId calls ! (k - 1)))"
    using submit_all_store_step[of k calls pf s cropId] by blast
next
  fix j k
  assume a: "j < k \<and> k < length calls \<and> is_Send (snd (submit_all pf s cropId calls ! j))"
  then have jk: "j < k" "k < length calls" and ok: "is_Send (snd (submit_all pf s cropId calls ! j))"
    by simp_all
  note later = resubmission_later[OF prim same jk ok]
  from later show "fst (submit_all pf s cropId calls ! k) = fst (submit_all pf s cropId calls ! j)"
    by (rule conjunct1)
  from later show response: "snd (submit_all pf s cropId calls ! k) =
                     (if \<not> truthy (js_prop (fst (calls ! k)) ''userName'') then SendStatus 400 UserInfoRequired
                      else if \<not> truthy (js_prop (fst (calls ! k)) ''quantity'') then SendStatus 400 QuantityAtLeast1
                      else (case quantity_lt_1 pf (js_prop (fst (calls ! k)) ''quantity'') of
                              Inl e \<Rightarrow> SendStatus 500 FailedToSubmitInterest
                            | Inr True \<Rightarrow> SendStatus 400 QuantityAtLeast1
                            | Inr False \<Rightarrow> SendStatus 400 AlreadySentInterest))"
    by (rule conjunct2)
  show "\<not> is_Send (snd (submit_all pf s cropId calls ! k))"
    unfolding response by (rule refusal_is_not_Send)
qed

text \<open>
  After the first of the four calls, the second gets "already sent", the third the
  quantity's 400, and the fourth, whose quantity cannot be converted, 500; the store stays
  as the first call left it.
\<close>

theorem resubmission_refused_witness:
  "length (filter (\<lambda>r. is_Send (snd r)) (submit_all example_platform [crop_C] id_C four_calls)) \<le> 1
   \<and> fst (submit_all example_platform [crop_C] id_C four_calls ! 1)
       = fst (submit_all example_platform [crop_C] id_C four_calls ! 0)
   \<and> snd (submit_all example_platform [crop_C] id_C four_calls ! 1) = SendStatus 400 AlreadySentInterest
   \<and> fst (submit_all example_platform [crop_C] id_C four_calls ! 2)
       = fst (submit_all example_platform [crop_C] id_C four_calls ! 0)
   \<and> snd (submit_all example_platform [crop_C] id_C four_calls ! 2) = SendStatus 400 QuantityAtLeast1
   \<and> fst (submit_all example_platform [crop_C] id_C four_calls ! 3)
       = fst (submit_all example_platform [crop_C] id_C four_calls ! 0)
   \<and> snd (submit_all example_platform [crop_C] id_C four_calls ! 3)
       = SendStatus 500 FailedToSubmitInterest"
proof -
  have prim: "is_primitive (JStr ''b@x.com'')" by simp
  have same: "\<forall>c \<in> set four_calls. js_prop (fst c) ''userEmail'' = JStr ''b@x.com''"
    by (simp add: four_calls_def three_calls_def interest_body_def)
  have first: "is_Send (snd (submit_all example_platform [crop_C] id_C four_calls ! 0))"
    by (simp add: four_calls_def three_calls_def submit_defs js_defs store_defs example_defs)
  note inst = resubmission_refused[OF prim same, of example_platform "[crop_C]" id_C]
  have one: "length (filter (\<lambda>r. is_Send (snd r)) (submit_all example_platform [crop_C] id_C four_calls)) \<le> 1"
    using inst by (rule conjunct1)
  have second: "fst (submit_all example_platform [crop_C] id_C four_calls ! 1)
       = fst (submit_all example_platform [crop_C] id_C four_calls ! 0)
   \<and> snd (submit_all example_platform [crop_C] id_C four_calls ! 1) = SendStatus 400 AlreadySentInterest"
    using inst[THEN conjunct2, THEN conjunct2, rule_format, of 0 1] first
    by (simp add: four_calls_def three_calls_def interest_body_def quantity_lt_1_def)
  have third: "fst (submit_all example_platform [crop_C] id_C four_calls ! 2)
       = fst (submit_all example_platform [crop_C] id_C four_calls ! 0)
   \<and> snd (submit_all example_platform [crop_C] id_C four_calls ! 2) = SendStatus 400 QuantityAtLeast1"
    using inst[THEN conjunct2, THEN conjunct2, rule_format, of 0 2] first
    by (simp add: four_calls_def three_calls_def interest_body_def quantity_lt_1_def)
  have fourth: "fst (submit_all example_platform [crop_C] id_C four_calls ! 3)
       = fst (submit_all example_platform [crop_C] id_C four_calls ! 0)
   \<and> snd (submit_all example_platform [crop_C] id_C four_calls ! 3)
       = SendStatus 500 FailedToSubmitInterest"
    using inst[THEN conjunct2, THEN conjunct2, rule_format, of 0 3] first
    by (simp add: four_calls_def three_calls_def interest_body_def quantity_lt_1_def
        example_platform_def unconvertible_def)
  from one second third fourth show ?thesis by blast
qed

section \<open>My interests\<close>

text \<open>
  Claim C9: \<open>listMyInterests\<close> returns, for each Interest whose \<^verbatim>\<open>userEmail\<close> is the
  argument, across all crops, exactly one projected record with the fields \<^verbatim>\<open>id\<close>
  (written \<^verbatim>\<open>_id\<close>), \<^verbatim>\<open>cropName\<close>, \<^verbatim>\<open>ownerName\<close>, \<^verbatim>\<open>quantity\<close>, \<^verbatim>\<open>message\<close> and
  \<^verbatim>\<open>status\<close>, in the order of the store: what the handler sends is the list
  \<open>spec_my_interests\<close>, which is written from the specification's words alone. And it
  does not fail on a crop whose \<^verbatim>\<open>interests\<close> is absent or empty: such a crop is well
  formed and contributes no record.

  The hypotheses: the argument is a non-empty string, and every crop of the store has the
  shape of the data model (\<open>interests_well_formed\<close>: its \<^verbatim>\<open>interests\<close> is absent, or an
  array without \<^verbatim>\<open>null\<close> elements, or at least not a single embedded document). On a
  store with a crop of another shape that the filter matches, the handler answers 500.
\<close>

theorem listMyInterests_projects:
  assumes e: "e \<noteq> []" and wf: "\<forall>crop \<in> set s. interests_well_formed crop"
  shows "listMyInterests pf s (JStr e) = Send (JArr (spec_my_interests e s))
       \<and> (\<forall>crop. map_of crop ''interests'' = None \<or> map_of crop ''interests'' = Some (JArr [])
             \<longrightarrow> interests_well_formed crop \<and> crop_records e crop = [])"
proof -
  have "map (projected crop)
          (filter (\<lambda>i. strict_eq (js_prop i ''userEmail'') (JStr e)) (interests_of crop))
        = crop_records e crop" for crop
    by (simp add: pushed_is_spec crop_records_def interests_by_def)
  then have "listMyInterests pf s (JStr e) = Send (JArr (spec_my_interests e s))"
    using listMyInterests_pushes[OF e wf, of pf] by (simp add: spec_my_interests_def)
  then show ?thesis using no_interests_no_records by blast
qed

text \<open>
  Four crops: one without \<^verbatim>\<open>interests\<close>, one with an interest of \<^verbatim>\<open>b@x.com\<close> (with a
  message) and one of \<^verbatim>\<open>c@x.com\<close>, one with no interests, and one with another interest of
  \<^verbatim>\<open>b@x.com\<close> (without a message).
\<close>

theorem listMyInterests_projects_witness:
  "listMyInterests example_platform
     [crop_C,
      crop_with [JObj [(''_id'', JObjectId id_I), (''cropId'', JStr id_C),
                       (''userEmail'', JStr ''b@x.com''), (''userName'', JStr ''B''),
                       (''quantity'', JNum 2), (''message'', JStr ''two bags''),
                       (''status'', JStr ''pending''), (''createdAt'', JDate 0)],
                 stored_interest id_J ''c@x.com'' ''C'' (JNum 1) ''accepted''],
      crop_D [],
      crop_D [stored_interest id_J ''b@x.com'' ''B'' (JNum 7) ''rejected'']]
     (JStr ''b@x.com'')
   = Send (JArr
       [JObj [(''_id'', JObjectId id_I), (''cropName'', JStr ''Rice''), (''ownerName'', JStr ''A''),
              (''quantity'', JNum 2), (''message'', JStr ''two bags''),
              (''status'', JStr ''pending'')],
        JObj [(''_id'', JObjectId id_J), (''cropName'', JStr ''Wheat''), (''ownerName'', JStr ''D''),
              (''quantity'', JNum 7), (''message'', JNull), (''status'', JStr ''rejected'')]])"
proof -
  let ?s = "[crop_C,
      crop_with [JObj [(''_id'', JObjectId id_I), (''cropId'', JStr id_C),
                       (''userEmail'', JStr ''b@x.com''), (''userName'', JStr ''B''),
                       (''quantity'', JNum 2), (''message'', JStr ''two bags''),
                       (''status'', JStr ''pending''), (''createdAt'', JDate 0)],
                 stored_interest id_J ''c@x.com'' ''C'' (JNum 1) ''accepted''],
      crop_D [],
      crop_D [stored_interest id_J ''b@x.com'' ''B'' (JNum 7) ''rejected'']]"
  have wf: "\<forall>crop \<in> set ?s. interests_well_formed crop"
    by (simp add: interests_well_formed_def example_defs crop_D_def)
  have "spec_my_interests ''b@x.com'' ?s =
       [JObj [(''_id'', JObjectId id_I), (''cropName'', JStr ''Rice''), (''ownerName'', JStr ''A''),
              (''quantity'', JNum 2), (''message'', JStr ''two bags''),
              (''status'', JStr ''pending'')],
        JObj [(''_id'', JObjectId id_J), (''cropName'', JStr ''Wheat''), (''ownerName'', JStr ''D''),
              (''quantity'', JNum 7), (''message'', JNull), (''status'', JStr ''rejected'')]]"
    by (simp add: spec_my_interests_def crop_records_def interests_by_def interests_of_def
        spec_record_def attribute_def example_defs crop_D_def)
  with listMyInterests_projects[of "''b@x.com''" ?s example_platform, OF _ wf]
  show ?thesis by simp
qed

section \<open>Replacing and updating a crop\<close>

text \<open>
  Claim C10: \<^verbatim>\<open>PUT /api/crops/:id\<close> and \<^verbatim>\<open>PATCH /api/crops/:id\<close> both apply the whole
  body with \<^verbatim>\<open>$set\<close>, and restrict no field: on an existing crop both leave the same
  store, in which every field named in the body has the body's value and every field
  absent from the body has kept its value (so PUT does not replace the document). The
  body is any object whose keys are plain field names; the only field the store itself
  protects is \<^verbatim>\<open>_id\<close>. The instance after the theorem gives the crop of \<^verbatim>\<open>a@x.com\<close> the owner
  \<^verbatim>\<open>z@x.com\<close> through either operation, and the crop keeps its name.
\<close>

theorem set_merges_body:
  assumes oid: "new_ObjectId crop_id = Some oid" and crop: "findOne s (id_matches oid) = Some crop"
    and plain: "list_all (\<lambda>(k, v). plain_key k) fs"
    and noid: "''_id'' \<notin> fst ` set fs" and dist: "distinct (map fst fs)"
  shows "\<exists>s' crop' m n.
           putCrop pf s crop_id (JObj fs) = (s', Send (JObj [(''success'', JBool True)]))
         \<and> patchCrop pf s crop_id (JObj fs) = (s', Send (UpdateResult m n))
         \<and> findOne s' (id_matches oid) = Some crop'
         \<and> (\<forall>k. map_of crop' k = (case map_of fs k of Some v \<Rightarrow> Some v | None \<Rightarrow> map_of crop k))"
  by (rule set_replaces_nothing_else[OF assms])

theorem set_merges_body_witness:
  "\<exists>s' crop' m n.
      putCrop example_platform [crop_C] id_C
        (JObj [(''owner'', JObj [(''ownerEmail'', JStr ''z@x.com'')])])
        = (s', Send (JObj [(''success'', JBool True)]))
    \<and> patchCrop example_platform [crop_C] id_C
        (JObj [(''owner'', JObj [(''ownerEmail'', JStr ''z@x.com'')])])
        = (s', Send (UpdateResult m n))
    \<and> findOne s' (id_matches id_C) = Some crop'
    \<and> opt_prop (doc_prop crop' ''owner'') ''ownerEmail'' = JStr ''z@x.com''
    \<and> doc_prop crop' ''name'' = JStr ''Rice''
    \<and> doc_prop crop' ''_id'' = JObjectId id_C"
proof -
  from set_merges_body[of id_C id_C "[crop_C]" crop_C
      "[(''owner'', JObj [(''ownerEmail'', JStr ''z@x.com'')])]" example_platform]
  obtain s' crop' m n where
    r: "putCrop example_platform [crop_C] id_C
        (JObj [(''owner'', JObj [(''ownerEmail'', JStr ''z@x.com'')])])
        = (s', Send (JObj [(''success'', JBool True)]))"
    "patchCrop example_platform [crop_C] id_C
        (JObj [(''owner'', JObj [(''ownerEmail'', JStr ''z@x.com'')])])
        = (s', Send (UpdateResult m n))"
    "findOne s' (id_matches id_C) = Some crop'"
    and fields: "\<forall>k. map_of crop' k =
       (case map_of [(''owner'', JObj [(''ownerEmail'', JStr ''z@x.com'')])] k of
          Some v \<Rightarrow> Some v | None \<Rightarrow> map_of crop_C k)"
    by (auto simp: js_defs store_defs example_defs plain_key_def)
  from fields have "opt_prop (doc_prop crop' ''owner'') ''ownerEmail'' = JStr ''z@x.com''"
    "doc_prop crop' ''name'' = JStr ''Rice''" "doc_prop crop' ''_id'' = JObjectId id_C"
    by (simp_all add: js_defs example_defs)
  with r show ?thesis by blast
qed

end
